theory Spec2Isabelle
  imports Complex_Main "HOL-Library.Word"
begin

section \<open>Python strings\<close>

text \<open>
  Text is modelled as \<open>string\<close>, one \<open>char\<close> per character with code below 256;
  lines with other characters are outside the model (Python's \<open>str.upper()\<close> turns some
  of them into ASCII letters). \<open>isspace\<close> lists the characters of the modelled range that
  Python's \<open>str.split()\<close> and \<open>str.strip()\<close> treat as whitespace; \<open>upper\<close> maps the
  ASCII letters and leaves every other character of the range alone. For the characters
  from 128 to 255 Python's result may differ, but it never contains a hexadecimal digit or
  one of the letters D, F, U, so a line with such a character in its payload is discarded
  by the code and by the model alike.
\<close>

definition isspace :: "char \<Rightarrow> bool" where
  "isspace c = ((of_char c :: nat) \<in> {9, 10, 11, 12, 13, 28, 29, 30, 31, 32, 133, 160})"

definition strip :: "string \<Rightarrow> string" where
  "strip s = rev (dropWhile isspace (rev (dropWhile isspace s)))"

fun split_from :: "string \<Rightarrow> string \<Rightarrow> string list" where
  "split_from cur [] = (if cur = [] then [] else [cur])"
| "split_from cur (c # cs) =
     (if isspace c then (if cur = [] then split_from [] cs else cur # split_from [] cs)
      else split_from (cur @ [c]) cs)"

definition split :: "string \<Rightarrow> string list" where
  "split s = split_from [] s"

definition upper_char :: "char \<Rightarrow> char" where
  "upper_char c =
     (case map_of (zip ''abcdefghijklmnopqrstuvwxyz'' ''ABCDEFGHIJKLMNOPQRSTUVWXYZ'') c of
        Some u \<Rightarrow> u
      | None \<Rightarrow> c)"

definition upper :: "string \<Rightarrow> string" where
  "upper s = map upper_char s"

fun join :: "string \<Rightarrow> string list \<Rightarrow> string" where
  "join sep [] = []"
| "join sep [x] = x"
| "join sep (x # y # ys) = x @ sep @ join sep (y # ys)"

definition replace_char :: "char \<Rightarrow> string \<Rightarrow> string" where
  "replace_char c s = filter (\<lambda>x. x \<noteq> c) s"

definition hexval :: "char \<Rightarrow> nat" where
  "hexval c = (let n = (of_char c :: nat) in if 48 \<le> n \<and> n \<le> 57 then n - 48 else n - 55)"

definition int16 :: "string \<Rightarrow> nat" where
  "int16 s = foldl (\<lambda>a c. 16 * a + hexval c) 0 s"

fun chunks2 :: "string \<Rightarrow> string list" where
  "chunks2 [] = []"
| "chunks2 [a] = [[a]]"
| "chunks2 (a # b # cs) = [a, b] # chunks2 cs"

section \<open>Binary64 arithmetic\<close>

text \<open>
  Timestamps are \<open>np.float64\<close> values. A finite binary64 number is modelled by the real
  number it denotes; \<open>round53\<close> rounds a real to the nearest number with a 53-bit
  significand, ties to even, which is the rounding of a binary64 operation whose result
  lies in the normal range. Subtraction and multiplication round their exact result. The
  exponent is not bounded: a difference of two binary64 numbers in the subnormal range is
  exact in binary64 and here, a product in that range is rounded more coarsely by
  binary64 than here, and a result beyond the largest binary64 number compares with the
  constants of the program as infinity does. NaN and the infinities are not modelled,
  although \<open>np.float64\<close> accepts the texts \<open>nan\<close> and \<open>inf\<close>: the statements about
  timestamps are statements about finite ones.
\<close>

type_synonym float64 = real

function bit_length :: "int \<Rightarrow> int" where
  "bit_length n = (if n \<le> 0 then 0 else 1 + bit_length (n div 2))"
  by pat_completeness auto
termination
  by (relation "measure nat") auto

declare bit_length.simps [simp del]

definition pow2 :: "int \<Rightarrow> real" where
  "pow2 k = (if 0 \<le> k then 2 ^ nat k else 1 / 2 ^ nat (- k))"

definition ilog2 :: "real \<Rightarrow> int" where
  \<comment> \<open>for \<open>x > 0\<close>, the exponent \<open>k\<close> with \<open>2^k \<le> x < 2^(k+1)\<close>\<close>
  "ilog2 x = (if 1 \<le> x then bit_length \<lfloor>x\<rfloor> - 1 else - bit_length (\<lceil>1 / x\<rceil> - 1))"

definition round_half_even :: "real \<Rightarrow> int" where
  "round_half_even x = (let f = \<lfloor>x\<rfloor>; r = x - of_int f in
     if r < 1 / 2 then f else if 1 / 2 < r then f + 1 else if even f then f else f + 1)"

definition round53 :: "real \<Rightarrow> float64" where
  "round53 x = (if x = 0 then 0 else
     let e = ilog2 \<bar>x\<bar> - 52 in of_int (round_half_even (x / pow2 e)) * pow2 e)"

definition fsub :: "float64 \<Rightarrow> float64 \<Rightarrow> float64" where
  "fsub a b = round53 (a - b)"

definition fmul :: "float64 \<Rightarrow> float64 \<Rightarrow> float64" where
  "fmul a b = round53 (a * b)"

section \<open>Line framing: \<open>decoder.parse_ads_b_line\<close>\<close>

definition MAX_MESSAGE_LENGTH :: nat where
  "MAX_MESSAGE_LENGTH = 32"

record ADSBMessage =
  timestamp :: float64
  message :: "8 word list"
  message_length :: nat

definition hex_parts :: "string list \<Rightarrow> string list" where
  "hex_parts parts =
     (if 3 \<le> length parts \<and> upper (parts ! 1) \<in> {''DF'', ''UF''} then drop 2 parts
      else drop 1 parts)"

definition fill_bytes :: "nat list \<Rightarrow> nat \<Rightarrow> 8 word list" where
  \<comment> \<open>\<open>np.zeros(MAX_MESSAGE_LENGTH)\<close>, then \<open>message[i] = np.uint8(bytes_list[i])\<close> for
      \<open>i\<close> in \<open>range(message_length)\<close>\<close>
  "fill_bytes bytes_list n =
     fold (\<lambda>i m. m[i := of_nat (bytes_list ! i)]) [0..<n] (replicate MAX_MESSAGE_LENGTH 0)"

text \<open>
  \<open>np_float64\<close> stands for \<open>np.float64(text)\<close>: \<open>None\<close> is its \<open>ValueError\<close>.
  After the check that \<open>message_str\<close> is made of hexadecimal digits, neither
  \<open>int(chunk, 16)\<close> nor \<open>np.uint8\<close> of a value below 256 can raise, so the second
  \<open>try\<close> of the source has no failing branch.
\<close>

definition parse_ads_b_line ::
  "(string \<Rightarrow> float64 option) \<Rightarrow> string \<Rightarrow> (ADSBMessage \<times> string \<times> string) option" where
  "parse_ads_b_line np_float64 line =
     (let parts = split (strip line) in
      if length parts < 2 then None
      else case np_float64 (parts ! 0) of
        None \<Rightarrow> None
      | Some ts \<Rightarrow>
          let message_spaced = strip (upper (join '' '' (hex_parts parts)));
              message_str = replace_char CHR '' '' message_spaced
          in if length message_str = 0
                \<or> \<not> list_all (\<lambda>c. c \<in> set ''0123456789ABCDEF'') message_str
             then None
             else
               let bytes_list = map int16 (chunks2 message_str);
                   n = min (length bytes_list) MAX_MESSAGE_LENGTH
               in Some (\<lparr>timestamp = ts, message = fill_bytes bytes_list n,
                          message_length = n\<rparr>,
                        message_spaced, message_str))"

text \<open>
  A stand-in for \<open>np.float64\<close> on plain decimal numerals (digits, optionally a point and
  more digits): the nearest binary64 number. It is used where a concrete run is evaluated.
\<close>

definition int10 :: "string \<Rightarrow> nat" where
  "int10 s = foldl (\<lambda>a c. 10 * a + hexval c) 0 s"

definition decimal_float64 :: "string \<Rightarrow> float64 option" where
  "decimal_float64 t =
     (let ip = takeWhile (\<lambda>c. c \<noteq> CHR ''.'') t;
          fp = drop 1 (dropWhile (\<lambda>c. c \<noteq> CHR ''.'') t)
      in if ip \<noteq> [] \<and> list_all (\<lambda>c. c \<in> set ''0123456789'') (ip @ fp)
         then Some (round53 (real (int10 (ip @ fp)) / 10 ^ length fp))
         else None)"

section \<open>The pyModeS interface\<close>

text \<open>
  The bit-level decoder is the external library pyModeS. Its functions are parameters of
  the model: a record of functions of the hexadecimal message text. A call either raises
  (\<open>Raised\<close>) or returns a value; Python's \<open>None\<close> is the \<open>None\<close> of an option type.
\<close>

datatype 'a call = Raised | Returned 'a

record pyModeS =
  pms_icao :: "string \<Rightarrow> string option call"
  pms_df :: "string \<Rightarrow> int call"
  pms_typecode :: "string \<Rightarrow> int option call"
  adsb_typecode :: "string \<Rightarrow> int option call"
  adsb_altitude :: "string \<Rightarrow> int option call"
  common_altcode :: "string \<Rightarrow> int option call"
  common_idcode :: "string \<Rightarrow> string call"
  adsb_oe_flag :: "string \<Rightarrow> int call"
  adsb_position ::
    "string \<Rightarrow> string \<Rightarrow> float64 \<Rightarrow> float64 \<Rightarrow> (float64 \<times> float64) option call"
  adsb_velocity ::
    "string \<Rightarrow> (float64 option \<times> float64 option \<times> int option \<times> string) option call"
  adsb_selected_altitude :: "string \<Rightarrow> (int option \<times> string) option call"
  adsb_altitude_diff :: "string \<Rightarrow> int option call"
  adsb_baro_pressure_setting :: "string \<Rightarrow> float64 option call"
  adsb_callsign :: "string \<Rightarrow> string option call"

section \<open>Field extraction: \<open>decoder.py\<close>\<close>

text \<open>
  Every function below wraps its body in \<open>try\<close> / \<open>except\<close> and returns \<open>None\<close> on any
  exception. Comparing a type code that is \<open>None\<close> with \<open>\<le>\<close> raises \<open>TypeError\<close>;
  comparing it with \<open>==\<close> or \<open>!=\<close> does not.
\<close>

definition get_altitude_any_df :: "pyModeS \<Rightarrow> string \<Rightarrow> int \<Rightarrow> int option" where
  "get_altitude_any_df p msg_str df =
     (if df \<in> {17, 18} then
        (case adsb_typecode p msg_str of
           Raised \<Rightarrow> None
         | Returned None \<Rightarrow> None
         | Returned (Some tc) \<Rightarrow>
             if 9 \<le> tc \<and> tc \<le> 18 then
               (case adsb_altitude p msg_str of Raised \<Rightarrow> None | Returned a \<Rightarrow> a)
             else None)
      else if df \<in> {0, 4, 16, 20} then
        (case common_altcode p msg_str of Raised \<Rightarrow> None | Returned a \<Rightarrow> a)
      else None)"

definition get_squawk :: "pyModeS \<Rightarrow> string \<Rightarrow> int \<Rightarrow> string option" where
  "get_squawk p msg_str df =
     (if df \<in> {5, 21} then
        (case common_idcode p msg_str of Raised \<Rightarrow> None | Returned sq \<Rightarrow> Some sq)
      else None)"

definition get_velocity :: "pyModeS \<Rightarrow> string \<Rightarrow> float64 option" where
  "get_velocity p msg_str =
     (case pms_df p msg_str of
        Raised \<Rightarrow> None
      | Returned df \<Rightarrow>
          if df \<notin> {17, 18} then None
          else case adsb_typecode p msg_str of
            Raised \<Rightarrow> None
          | Returned tc \<Rightarrow>
              if tc = Some 19 then
                (case adsb_velocity p msg_str of
                   Raised \<Rightarrow> None
                 | Returned None \<Rightarrow> None
                 | Returned (Some (speed, heading, rate, tag)) \<Rightarrow> speed)
              else None)"

definition get_course :: "pyModeS \<Rightarrow> string \<Rightarrow> float64 option" where
  "get_course p msg_str =
     (case pms_df p msg_str of
        Raised \<Rightarrow> None
      | Returned df \<Rightarrow>
          if df \<notin> {17, 18} then None
          else case adsb_typecode p msg_str of
            Raised \<Rightarrow> None
          | Returned tc \<Rightarrow>
              if tc = Some 19 then
                (case adsb_velocity p msg_str of
                   Raised \<Rightarrow> None
                 | Returned None \<Rightarrow> None
                 | Returned (Some (speed, heading, rate, tag)) \<Rightarrow> heading)
              else None)"

definition MODE_MAP :: "char \<rightharpoonup> string" where
  "MODE_MAP = map_of
     [(CHR ''U'', ''AP''), (CHR ''/'', ''ALT''), (CHR ''M'', ''VNAV''), (CHR ''F'', ''LNAV''),
      (CHR ''P'', ''APP''), (CHR ''T'', ''TCAS''), (CHR ''C'', ''HDG'')]"

definition mode_label :: "char \<Rightarrow> string" where
  \<comment> \<open>\<open>MODE_MAP.get(m, m)\<close>\<close>
  "mode_label m = (case MODE_MAP m of Some l \<Rightarrow> l | None \<Rightarrow> [m])"

definition get_selected_altitude :: "pyModeS \<Rightarrow> string \<Rightarrow> (int \<times> string set) option" where
  "get_selected_altitude p msg_str =
     (case pms_df p msg_str of
        Raised \<Rightarrow> None
      | Returned df \<Rightarrow>
          if df \<notin> {17, 18} then None
          else case adsb_typecode p msg_str of
            Raised \<Rightarrow> None
          | Returned tc \<Rightarrow>
              if tc \<noteq> Some 29 then None
              else case adsb_selected_altitude p msg_str of
                Raised \<Rightarrow> None
              | Returned None \<Rightarrow> None
              | Returned (Some (None, raw_modes)) \<Rightarrow> None
              | Returned (Some (Some selected_alt, raw_modes)) \<Rightarrow>
                  if - 2000 \<le> selected_alt \<and> selected_alt \<le> 50000
                  then Some (selected_alt, mode_label ` set raw_modes)
                  else None)"

definition get_altitude_difference :: "pyModeS \<Rightarrow> string \<Rightarrow> int option" where
  "get_altitude_difference p msg_str =
     (case pms_df p msg_str of
        Raised \<Rightarrow> None
      | Returned df \<Rightarrow>
          if df \<notin> {17, 18} then None
          else case pms_typecode p msg_str of
            Raised \<Rightarrow> None
          | Returned tc \<Rightarrow>
              if tc \<noteq> Some 19 then None
              else case adsb_altitude_diff p msg_str of
                Raised \<Rightarrow> None
              | Returned None \<Rightarrow> None
              | Returned (Some altitude_diff) \<Rightarrow>
                  if - 2500 \<le> altitude_diff \<and> altitude_diff \<le> 2500
                  then Some altitude_diff else None)"

definition get_baro_correction :: "pyModeS \<Rightarrow> string \<Rightarrow> float64 option" where
  "get_baro_correction p msg_str =
     (case pms_df p msg_str of
        Raised \<Rightarrow> None
      | Returned df \<Rightarrow>
          if df \<notin> {17, 18} then None
          else case adsb_typecode p msg_str of
            Raised \<Rightarrow> None
          | Returned tc \<Rightarrow>
              if tc \<noteq> Some 29 then None
              else case adsb_baro_pressure_setting p msg_str of
                Raised \<Rightarrow> None
              | Returned None \<Rightarrow> None
              | Returned (Some baro_setting) \<Rightarrow>
                  if 800 \<le> baro_setting \<and> baro_setting \<le> 1100
                  then Some baro_setting else None)"

definition isalnum :: "char \<Rightarrow> bool" where
  \<comment> \<open>on ASCII, the range of the characters of a decoded callsign\<close>
  "isalnum c =
     (c \<in> set ''0123456789ABCDEFGHIJKLMNOPQRSTUVWXYZabcdefghijklmnopqrstuvwxyz'')"

definition get_callsign :: "pyModeS \<Rightarrow> string \<Rightarrow> string option" where
  "get_callsign p msg_str =
     (case pms_df p msg_str of
        Raised \<Rightarrow> None
      | Returned df \<Rightarrow>
          if df \<notin> {17, 18} then None
          else case adsb_typecode p msg_str of
            Raised \<Rightarrow> None
          | Returned None \<Rightarrow> None
          | Returned (Some tc) \<Rightarrow>
              if 1 \<le> tc \<and> tc \<le> 4 then
                (case adsb_callsign p msg_str of
                   Raised \<Rightarrow> None
                 | Returned None \<Rightarrow> None
                 | Returned (Some callsign) \<Rightarrow>
                     if callsign = [] then None else Some (filter isalnum callsign))
              else None)"

fun str_nat :: "nat \<Rightarrow> string" where
  "str_nat n =
     (if n < 10 then [''0123456789'' ! n]
      else str_nat (n div 10) @ [''0123456789'' ! (n mod 10)])"

declare str_nat.simps [simp del]

definition str_int :: "int \<Rightarrow> string" where
  "str_int i = (if i < 0 then CHR ''-'' # str_nat (nat (- i)) else str_nat (nat i))"

definition get_format_label :: "string \<Rightarrow> int \<Rightarrow> string" where
  "get_format_label msg_str df =
     (let length_type =
        (if df \<in> {0, 4, 5, 11} then ''S''
         else if df \<in> {16, 17, 18, 19, 20, 21, 24} then ''L''
         else let length_bits = length msg_str * 4 in
              if length_bits = 56 then ''S''
              else if length_bits = 112 then ''L''
              else ''?'');
          label = ''DF'' @ str_int df
      in label @ ''('' @ length_type @ '')'')"

section \<open>Aggregated state and the ingestion loop: \<open>main.py\<close>\<close>

text \<open>
  An aircraft key is the value of \<open>pms.icao\<close>: a string, or \<open>None\<close>. Each dictionary of
  the main program is a map. \<open>icao_callsigns\<close> holds three kinds of entries under
  string keys built from the address: the callsign under the address itself, the squawk
  under \<open>"<address>_sq"\<close> and the set of autopilot modes under \<open>"<address>_modes"\<close>.
  The two-element list of \<open>cpr_messages\<close> is a pair (even slot, odd slot): the list is
  only ever created as \<open>[None, None]\<close> and written by index.
  \<open>position_calls\<close> is not a variable of the program: it records, in order, the arguments
  of every call of \<open>pms.adsb.position\<close>.
\<close>

type_synonym icao = "string option"

datatype pyval = Str string | StrSet "string set"

record times =
  t_first :: float64
  t_last :: float64

type_synonym cpr_slot = "(string \<times> float64) option"

record state =
  icao_times :: "icao \<rightharpoonup> times"
  icao_altitude :: "icao \<rightharpoonup> (float64 \<times> int) list"
  icao_gnss_altitude :: "icao \<rightharpoonup> (float64 \<times> int) list"
  icao_speed :: "icao \<rightharpoonup> (float64 \<times> float64) list"
  icao_callsigns :: "icao \<rightharpoonup> pyval"
  icao_selected_altitude :: "icao \<rightharpoonup> (float64 \<times> int) list"
  icao_altitude_difference :: "icao \<rightharpoonup> (float64 \<times> int) list"
  icao_baro_correction :: "icao \<rightharpoonup> (float64 \<times> float64) list"
  icao_has_selected_alt :: "icao \<rightharpoonup> bool"
  adsb_icao_list :: "icao set"
  icao_positions :: "icao \<rightharpoonup> (float64 \<times> float64 \<times> float64) list"
  icao_courses :: "icao \<rightharpoonup> (float64 \<times> float64) list"
  cpr_messages :: "icao \<rightharpoonup> (cpr_slot \<times> cpr_slot)"
  icao_dfs :: "icao \<rightharpoonup> string set"
  icao_airborne_pos_ts :: "icao \<rightharpoonup> float64 list"
  icao_surface_pos_ts :: "icao \<rightharpoonup> float64 list"
  icao_ident_timestamps :: "icao \<rightharpoonup> float64 list"
  icao_speed_ts :: "icao \<rightharpoonup> float64 list"
  icao_status_ts :: "icao \<rightharpoonup> float64 list"
  icao_target_state_ts :: "icao \<rightharpoonup> float64 list"
  icao_operation_status_ts :: "icao \<rightharpoonup> float64 list"
  icao_df11_ts :: "icao \<rightharpoonup> float64 list"
  current_baro_buffer :: "icao \<rightharpoonup> (float64 \<times> int)"
  position_calls :: "(string \<times> string \<times> float64 \<times> float64) list"

definition init_state :: state where
  "init_state =
     \<lparr>icao_times = Map.empty, icao_altitude = Map.empty, icao_gnss_altitude = Map.empty,
      icao_speed = Map.empty, icao_callsigns = Map.empty, icao_selected_altitude = Map.empty,
      icao_altitude_difference = Map.empty, icao_baro_correction = Map.empty,
      icao_has_selected_alt = Map.empty, adsb_icao_list = {}, icao_positions = Map.empty,
      icao_courses = Map.empty, cpr_messages = Map.empty, icao_dfs = Map.empty,
      icao_airborne_pos_ts = Map.empty, icao_surface_pos_ts = Map.empty,
      icao_ident_timestamps = Map.empty, icao_speed_ts = Map.empty, icao_status_ts = Map.empty,
      icao_target_state_ts = Map.empty, icao_operation_status_ts = Map.empty,
      icao_df11_ts = Map.empty, current_baro_buffer = Map.empty, position_calls = []\<rparr>"

definition append_to :: "('k \<rightharpoonup> 'v list) \<Rightarrow> 'k \<Rightarrow> 'v \<Rightarrow> ('k \<rightharpoonup> 'v list)" where
  \<comment> \<open>\<open>d.setdefault(k, []).append(v)\<close>\<close>
  "append_to d k v = d(k \<mapsto> (case d k of None \<Rightarrow> [] | Some xs \<Rightarrow> xs) @ [v])"

definition py_str :: "icao \<Rightarrow> string" where
  \<comment> \<open>the address as an f-string renders it\<close>
  "py_str aa = (case aa of None \<Rightarrow> ''None'' | Some a \<Rightarrow> a)"

definition sq_key :: "icao \<Rightarrow> icao" where
  "sq_key aa = Some (py_str aa @ ''_sq'')"

definition modes_key :: "icao \<Rightarrow> icao" where
  "modes_key aa = Some (py_str aa @ ''_modes'')"

definition collect_timestamps :: "state \<Rightarrow> icao \<Rightarrow> float64 \<Rightarrow> int \<Rightarrow> state" where
  "collect_timestamps s aa ts tc =
     (let s1 = (if (9 \<le> tc \<and> tc \<le> 18) \<or> (20 \<le> tc \<and> tc \<le> 22)
                then s\<lparr>icao_airborne_pos_ts := append_to (icao_airborne_pos_ts s) aa ts\<rparr>
                else s);
          s2 = (if 5 \<le> tc \<and> tc \<le> 8
                then s1\<lparr>icao_surface_pos_ts := append_to (icao_surface_pos_ts s1) aa ts\<rparr>
                else s1);
          s3 = (if 1 \<le> tc \<and> tc \<le> 4
                then s2\<lparr>icao_ident_timestamps := append_to (icao_ident_timestamps s2) aa ts\<rparr>
                else s2);
          s4 = (if tc = 19
                then s3\<lparr>icao_speed_ts := append_to (icao_speed_ts s3) aa ts\<rparr>
                else s3);
          s5 = (if tc = 28
                then s4\<lparr>icao_status_ts := append_to (icao_status_ts s4) aa ts\<rparr>
                else s4);
          s6 = (if tc = 29
                then s5\<lparr>icao_target_state_ts := append_to (icao_target_state_ts s5) aa ts\<rparr>
                else s5)
      in if tc = 31
         then s6\<lparr>icao_operation_status_ts := append_to (icao_operation_status_ts s6) aa ts\<rparr>
         else s6)"

text \<open>
  The CPR pairing block (the branch \<open>9 <= tc <= 18\<close>). An exception leaves the block with
  the state as it is at that point: the handler of the loop body only continues with
  the next line. A Python list of length two accepts the indices \<open>-2 .. 1\<close>.
\<close>

definition cpr_slots :: "state \<Rightarrow> icao \<Rightarrow> cpr_slot \<times> cpr_slot" where
  \<comment> \<open>\<open>cpr_messages.setdefault(aa, [None, None])\<close>\<close>
  "cpr_slots s aa = (case cpr_messages s aa of None \<Rightarrow> (None, None) | Some sl \<Rightarrow> sl)"

definition store_frame ::
  "cpr_slot \<times> cpr_slot \<Rightarrow> int \<Rightarrow> string \<times> float64 \<Rightarrow> cpr_slot \<times> cpr_slot" where
  "store_frame slots oe_flag frame =
     (if oe_flag = 0 \<or> oe_flag = - 2 then (Some frame, snd slots) else (fst slots, Some frame))"

definition cpr_block :: "pyModeS \<Rightarrow> state \<Rightarrow> icao \<Rightarrow> float64 \<Rightarrow> string \<Rightarrow> state" where
  "cpr_block p s aa ts message_str =
     (let slots = cpr_slots s aa;
          s1 = s\<lparr>cpr_messages := (cpr_messages s)(aa \<mapsto> slots)\<rparr>
      in case adsb_oe_flag p message_str of
           Raised \<Rightarrow> s1
         | Returned oe_flag \<Rightarrow>
             if oe_flag < - 2 \<or> 2 \<le> oe_flag then s1
             else
               let slots' = store_frame slots oe_flag (message_str, ts);
                   s2 = s1\<lparr>cpr_messages := (cpr_messages s1)(aa \<mapsto> slots')\<rparr>
               in case slots' of
                    (Some (msg0, t0), Some (msg1, t1)) \<Rightarrow>
                      if \<bar>fsub t0 t1\<bar> < 10 then
                        let s3 = s2\<lparr>position_calls :=
                                       position_calls s2 @ [(msg0, msg1, t0, t1)]\<rparr>
                        in case adsb_position p msg0 msg1 t0 t1 of
                             Raised \<Rightarrow> s3
                           | Returned pos \<Rightarrow>
                               let s4 = (case pos of
                                           None \<Rightarrow> s3
                                         | Some (lat, lon) \<Rightarrow>
                                             s3\<lparr>icao_positions :=
                                                  append_to (icao_positions s3) aa (ts, lat, lon)\<rparr>)
                               in s4\<lparr>cpr_messages := (cpr_messages s4)(aa \<mapsto> (None, None))\<rparr>
                      else s2
                  | _ \<Rightarrow> s2)"

definition velocity_block :: "pyModeS \<Rightarrow> state \<Rightarrow> icao \<Rightarrow> float64 \<Rightarrow> string \<Rightarrow> state" where
  "velocity_block p s aa ts message_str =
     (let s1 = (case get_velocity p message_str of
                  Some gs \<Rightarrow> s\<lparr>icao_speed := append_to (icao_speed s) aa (ts, gs)\<rparr>
                | None \<Rightarrow> s);
          s2 = (case get_course p message_str of
                  Some course \<Rightarrow> s1\<lparr>icao_courses := append_to (icao_courses s1) aa (ts, course)\<rparr>
                | None \<Rightarrow> s1)
      in case get_altitude_difference p message_str of
           None \<Rightarrow> s2
         | Some alt_diff \<Rightarrow>
             let s3 = s2\<lparr>icao_altitude_difference :=
                            append_to (icao_altitude_difference s2) aa (ts, alt_diff)\<rparr>
             in case current_baro_buffer s3 aa of
                  None \<Rightarrow> s3
                | Some (last_ts, last_baro) \<Rightarrow>
                    if \<bar>fsub ts last_ts\<bar> < 5 then
                      s3\<lparr>icao_gnss_altitude :=
                           append_to (icao_gnss_altitude s3) aa (ts, last_baro + alt_diff)\<rparr>
                    else s3)"

definition callsign_block :: "pyModeS \<Rightarrow> state \<Rightarrow> icao \<Rightarrow> string \<Rightarrow> state" where
  "callsign_block p s aa message_str =
     (case get_callsign p message_str of
        None \<Rightarrow> s
      | Some cs \<Rightarrow> if cs \<noteq> [] then s\<lparr>icao_callsigns := (icao_callsigns s)(aa \<mapsto> Str cs)\<rparr> else s)"

text \<open>
  In the target-state block, \<open>existing_modes.union(modes)\<close> raises \<open>AttributeError\<close> when
  the entry found under the modes key is a string; the selected altitude has been stored
  by then, and the baro setting of the message is not reached.
\<close>

definition baro_correction_step :: "pyModeS \<Rightarrow> state \<Rightarrow> icao \<Rightarrow> float64 \<Rightarrow> string \<Rightarrow> state" where
  "baro_correction_step p s aa ts message_str =
     (case get_baro_correction p message_str of
        None \<Rightarrow> s
      | Some baro_corr \<Rightarrow>
          s\<lparr>icao_baro_correction := append_to (icao_baro_correction s) aa (ts, baro_corr)\<rparr>)"

definition target_state_block ::
  "pyModeS \<Rightarrow> state \<Rightarrow> icao \<Rightarrow> float64 \<Rightarrow> string \<Rightarrow> state" where
  "target_state_block p s aa ts message_str =
     (case get_selected_altitude p message_str of
        None \<Rightarrow> baro_correction_step p s aa ts message_str
      | Some (sel_alt_value, modes) \<Rightarrow>
          let s1 = s\<lparr>icao_selected_altitude :=
                        append_to (icao_selected_altitude s) aa (ts, sel_alt_value),
                      icao_has_selected_alt := (icao_has_selected_alt s)(aa \<mapsto> True)\<rparr>
          in case icao_callsigns s1 (modes_key aa) of
               Some (Str x) \<Rightarrow> s1
             | Some (StrSet existing_modes) \<Rightarrow>
                 baro_correction_step p
                   (s1\<lparr>icao_callsigns :=
                         (icao_callsigns s1)(modes_key aa \<mapsto> StrSet (existing_modes \<union> modes))\<rparr>)
                   aa ts message_str
             | None \<Rightarrow>
                 baro_correction_step p
                   (s1\<lparr>icao_callsigns :=
                         (icao_callsigns s1)(modes_key aa \<mapsto> StrSet ({} \<union> modes))\<rparr>)
                   aa ts message_str)"

definition adsb_block :: "pyModeS \<Rightarrow> state \<Rightarrow> icao \<Rightarrow> float64 \<Rightarrow> string \<Rightarrow> state" where
  \<comment> \<open>the body of \<open>if df in [17, 18]\<close>\<close>
  "adsb_block p s aa ts message_str =
     (case adsb_typecode p message_str of
        Raised \<Rightarrow> s
      | Returned None \<Rightarrow> s
      | Returned (Some tc) \<Rightarrow>
          let s1 = collect_timestamps s aa ts tc
          in if 9 \<le> tc \<and> tc \<le> 18 then cpr_block p s1 aa ts message_str
             else if tc = 19 then velocity_block p s1 aa ts message_str
             else if 1 \<le> tc \<and> tc \<le> 4 then callsign_block p s1 aa message_str
             else if tc = 29 then target_state_block p s1 aa ts message_str
             else s1)"

definition altitude_step ::
  "pyModeS \<Rightarrow> state \<Rightarrow> icao \<Rightarrow> int \<Rightarrow> float64 \<Rightarrow> string \<Rightarrow> state" where
  "altitude_step p s aa df ts message_str =
     (case get_altitude_any_df p message_str df of
        None \<Rightarrow> s
      | Some alt \<Rightarrow>
          if - 2000 \<le> alt \<and> alt \<le> 60000
          then s\<lparr>icao_altitude := append_to (icao_altitude s) aa (ts, alt),
                 current_baro_buffer := (current_baro_buffer s)(aa \<mapsto> (ts, alt))\<rparr>
          else s)"

definition squawk_step :: "pyModeS \<Rightarrow> state \<Rightarrow> icao \<Rightarrow> int \<Rightarrow> string \<Rightarrow> state" where
  "squawk_step p s aa df message_str =
     (case get_squawk p message_str df of
        None \<Rightarrow> s
      | Some sq \<Rightarrow>
          if sq \<noteq> [] then s\<lparr>icao_callsigns := (icao_callsigns s)(sq_key aa \<mapsto> Str sq)\<rparr>
          else s)"

definition decode_fields ::
  "pyModeS \<Rightarrow> state \<Rightarrow> icao \<Rightarrow> int \<Rightarrow> float64 \<Rightarrow> string \<Rightarrow> state" where
  \<comment> \<open>the body of the inner \<open>try\<close>\<close>
  "decode_fields p s aa df ts message_str =
     (let s1 = altitude_step p s aa df ts message_str;
          s2 = squawk_step p s1 aa df message_str
      in if df \<in> {17, 18} then adsb_block p s2 aa ts message_str else s2)"

definition register_message :: "state \<Rightarrow> icao \<Rightarrow> int \<Rightarrow> float64 \<Rightarrow> string \<Rightarrow> state" where
  \<comment> \<open>aircraft set, format label, first/last time, DF11 list\<close>
  "register_message s aa df ts message_str =
     (let fmt_label = get_format_label message_str df;
          s1 = s\<lparr>adsb_icao_list := insert aa (adsb_icao_list s),
                  icao_dfs := (icao_dfs s)(aa \<mapsto>
                     insert fmt_label (case icao_dfs s aa of None \<Rightarrow> {} | Some d \<Rightarrow> d)),
                  icao_times := (icao_times s)(aa \<mapsto>
                     (case icao_times s aa of
                        None \<Rightarrow> \<lparr>t_first = ts, t_last = ts\<rparr>
                      | Some t \<Rightarrow> t\<lparr>t_last := ts\<rparr>))\<rparr>
      in if df = 11 then s1\<lparr>icao_df11_ts := append_to (icao_df11_ts s1) aa ts\<rparr> else s1)"

definition target_excludes :: "string option \<Rightarrow> icao \<Rightarrow> bool" where
  \<comment> \<open>\<open>target_icao and aa != target_icao\<close>\<close>
  "target_excludes target_icao aa =
     (case target_icao of None \<Rightarrow> False | Some t \<Rightarrow> t \<noteq> [] \<and> aa \<noteq> Some t)"

definition process_line ::
  "(string \<Rightarrow> float64 option) \<Rightarrow> pyModeS \<Rightarrow> string option \<Rightarrow> state \<Rightarrow> string \<Rightarrow> state" where
  "process_line np_float64 p target_icao s line =
     (if strip line = [] then s
      else case parse_ads_b_line np_float64 line of
        None \<Rightarrow> s
      | Some (msg, message_spaced, message_str) \<Rightarrow>
          (case pms_icao p message_str of
             Raised \<Rightarrow> s
           | Returned aa \<Rightarrow>
               (case pms_df p message_str of
                  Raised \<Rightarrow> s
                | Returned df \<Rightarrow>
                    if target_excludes target_icao aa then s
                    else decode_fields p
                           (register_message s aa df (timestamp msg) message_str)
                           aa df (timestamp msg) message_str)))"

definition ingest ::
  "(string \<Rightarrow> float64 option) \<Rightarrow> pyModeS \<Rightarrow> string option \<Rightarrow> state \<Rightarrow> string list \<Rightarrow> state" where
  "ingest np_float64 p target_icao s lines = foldl (process_line np_float64 p target_icao) s lines"

definition before_dispatch ::
  "pyModeS \<Rightarrow> state \<Rightarrow> icao \<Rightarrow> int \<Rightarrow> float64 \<Rightarrow> string \<Rightarrow> int \<Rightarrow> state" where
  \<comment> \<open>the state of \<open>decode_fields\<close> when an extended squitter of type code \<open>tc\<close> reaches
      the dispatch on the type code\<close>
  "before_dispatch p s aa df ts m tc =
     collect_timestamps (squawk_step p (altitude_step p s aa df ts m) aa df m) aa ts tc"

section \<open>Capability filter and report counts: \<open>main.py\<close>\<close>

fun contains :: "string \<Rightarrow> string \<Rightarrow> bool" where
  \<comment> \<open>\<open>sub in text\<close>\<close>
  "contains sub [] = (sub = [])"
| "contains sub (c # cs) = (take (length sub) (c # cs) = sub \<or> contains sub cs)"

definition has_adsb :: "string set \<Rightarrow> bool" where
  "has_adsb dfs = (\<exists>label \<in> dfs. contains ''DF17'' label \<or> contains ''DF18'' label)"

definition labels_of :: "state \<Rightarrow> icao \<Rightarrow> string set" where
  \<comment> \<open>\<open>icao_dfs.get(icao, set())\<close>\<close>
  "labels_of s icao = (case icao_dfs s icao of None \<Rightarrow> {} | Some dfs \<Rightarrow> dfs)"

definition filtered_icao_list :: "state \<Rightarrow> icao set" where
  "filtered_icao_list s = {icao \<in> adsb_icao_list s. has_adsb (labels_of s icao)}"

definition total_icao_count :: "state \<Rightarrow> int" where
  "total_icao_count s = int (card (adsb_icao_list s))"

definition retained_count :: "state \<Rightarrow> int" where
  \<comment> \<open>\<open>len(adsb_icao_list)\<close> after the list has been replaced by the filtered one\<close>
  "retained_count s = int (card (filtered_icao_list s))"

definition filtered_count :: "state \<Rightarrow> int" where
  "filtered_count s = total_icao_count s - retained_count s"

section \<open>Interval histogram: \<open>IcaoGraphs._plot_histogram\<close> of \<open>prog1.py\<close>\<close>

text \<open>
  The part of the routine that computes: the choice of timestamp list, target and
  half-width by mode, the intervals and their three bands. Drawing is left out.
\<close>

datatype histogram =
    InsufficientData
  | NoValidIntervals
  | Bands (intervals: "float64 list") (middle: "float64 list")
      (left: "float64 list") (right: "float64 list")

definition histogram_source :: "string \<Rightarrow> state \<Rightarrow> icao \<Rightarrow> float64 list option" where
  "histogram_source mode s icao =
     (if mode = ''df11_msg_intervals'' then icao_df11_ts s icao
      else if mode = ''reg05_msg_intervals'' then icao_airborne_pos_ts s icao
      else if mode = ''reg06_msg_intervals'' then icao_surface_pos_ts s icao
      else if mode = ''reg08_msg_intervals'' then icao_ident_timestamps s icao
      else if mode = ''reg09_msg_intervals'' then icao_speed_ts s icao
      else if mode = ''reg61_msg_intervals'' then icao_status_ts s icao
      else if mode = ''reg62_msg_intervals'' then icao_target_state_ts s icao
      else if mode = ''reg65_msg_intervals'' then icao_operation_status_ts s icao
      else None)"

definition histogram_target :: "string \<Rightarrow> int \<times> int" where
  \<comment> \<open>\<open>(center, dev)\<close>; the default is \<open>500, 100\<close>\<close>
  "histogram_target mode =
     (if mode = ''df11_msg_intervals'' then (1000, 200)
      else if mode = ''reg05_msg_intervals'' then (500, 100)
      else if mode = ''reg06_msg_intervals'' then (500, 100)
      else if mode = ''reg08_msg_intervals'' then (5000, 200)
      else if mode = ''reg09_msg_intervals'' then (500, 100)
      else if mode = ''reg61_msg_intervals'' then (5000, 200)
      else if mode = ''reg62_msg_intervals'' then (1250, 100)
      else if mode = ''reg65_msg_intervals'' then (2500, 100)
      else (500, 100))"

definition np_diff :: "float64 list \<Rightarrow> float64 list" where
  "np_diff xs = map (\<lambda>(a, b). fsub b a) (zip xs (tl xs))"

definition plot_histogram :: "string \<Rightarrow> state \<Rightarrow> icao \<Rightarrow> histogram" where
  "plot_histogram mode s icao =
     (case histogram_source mode s icao of
        None \<Rightarrow> InsufficientData
      | Some data_source \<Rightarrow>
          if data_source = [] \<or> length data_source < 2 then InsufficientData
          else
            let (center, dev) = histogram_target mode;
                timestamps = sort data_source;
                ms = map (\<lambda>d. fmul d 1000) (np_diff timestamps);
                ivs = filter (\<lambda>x. 0 \<le> x) ms
            in if length ivs = 0 then NoValidIntervals
               else
                 let low = center - dev;
                     high = center + dev
                 in Bands ivs
                      (filter (\<lambda>x. real_of_int low \<le> x \<and> x \<le> real_of_int high) ivs)
                      (filter (\<lambda>x. x < real_of_int low) ivs)
                      (filter (\<lambda>x. real_of_int high < x) ivs))"

section \<open>Notions used to state properties of a whole run\<close>

definition identify ::
  "(string \<Rightarrow> float64 option) \<Rightarrow> pyModeS \<Rightarrow> string option \<Rightarrow> string
     \<Rightarrow> (icao \<times> int \<times> float64 \<times> string) option" where
  \<comment> \<open>address, format, timestamp and text of a line that passes framing, \<open>pms.icao\<close>,
      \<open>pms.df\<close> and the aircraft selection; \<open>None\<close> for a line the loop skips\<close>
  "identify np_float64 p target_icao line =
     (if strip line = [] then None
      else case parse_ads_b_line np_float64 line of
        None \<Rightarrow> None
      | Some (msg, message_spaced, message_str) \<Rightarrow>
          (case pms_icao p message_str of
             Raised \<Rightarrow> None
           | Returned aa \<Rightarrow>
               (case pms_df p message_str of
                  Raised \<Rightarrow> None
                | Returned df \<Rightarrow>
                    if target_excludes target_icao aa then None
                    else Some (aa, df, timestamp msg, message_str))))"

definition seen_at ::
  "(string \<Rightarrow> float64 option) \<Rightarrow> pyModeS \<Rightarrow> string option \<Rightarrow> icao \<Rightarrow> string
     \<Rightarrow> float64 option" where
  "seen_at np_float64 p target_icao aa line =
     (case identify np_float64 p target_icao line of
        None \<Rightarrow> None
      | Some (a, df, ts, m) \<Rightarrow> if a = aa then Some ts else None)"

definition seen_timestamps ::
  "(string \<Rightarrow> float64 option) \<Rightarrow> pyModeS \<Rightarrow> string option \<Rightarrow> icao \<Rightarrow> string list
     \<Rightarrow> float64 list" where
  \<comment> \<open>the timestamps of the identified messages of an aircraft, in arrival order\<close>
  "seen_timestamps np_float64 p target_icao aa lines =
     List.map_filter (seen_at np_float64 p target_icao aa) lines"

definition callsign_of_line ::
  "(string \<Rightarrow> float64 option) \<Rightarrow> pyModeS \<Rightarrow> string option \<Rightarrow> icao \<Rightarrow> string
     \<Rightarrow> string option" where
  \<comment> \<open>the non-empty sanitized callsign that a line yields for an aircraft, if any\<close>
  "callsign_of_line np_float64 p target_icao aa line =
     (case identify np_float64 p target_icao line of
        None \<Rightarrow> None
      | Some (a, df, ts, m) \<Rightarrow>
          if a = aa \<and> df \<in> {17, 18} then
            (case adsb_typecode p m of
               Returned (Some tc) \<Rightarrow>
                 if 1 \<le> tc \<and> tc \<le> 4 then
                   (case get_callsign p m of
                      Some cs \<Rightarrow> if cs \<noteq> [] then Some cs else None
                    | None \<Rightarrow> None)
                 else None
             | _ \<Rightarrow> None)
          else None)"

definition callsigns_seen ::
  "(string \<Rightarrow> float64 option) \<Rightarrow> pyModeS \<Rightarrow> string option \<Rightarrow> icao \<Rightarrow> string list
     \<Rightarrow> string list" where
  "callsigns_seen np_float64 p target_icao aa lines =
     List.map_filter (callsign_of_line np_float64 p target_icao aa) lines"

definition plain_key :: "icao \<Rightarrow> bool" where
  \<comment> \<open>an address without underscore, as every address pyModeS returns (hexadecimal digits)\<close>
  "plain_key aa = (case aa of None \<Rightarrow> True | Some a \<Rightarrow> CHR ''_'' \<notin> set a)"

definition series :: "('k \<rightharpoonup> 'v list) \<Rightarrow> 'k \<Rightarrow> 'v list" where
  "series d k = (case d k of None \<Rightarrow> [] | Some xs \<Rightarrow> xs)"

definition all_in :: "('k \<rightharpoonup> ('t \<times> 'v::linorder) list) \<Rightarrow> 'v \<Rightarrow> 'v \<Rightarrow> bool" where
  "all_in d lo hi = (\<forall>k t v. (t, v) \<in> set (series d k) \<longrightarrow> lo \<le> v \<and> v \<le> hi)"

definition plausible :: "state \<Rightarrow> bool" where
  "plausible s =
     (all_in (icao_altitude s) (- 2000) 60000
      \<and> all_in (icao_selected_altitude s) (- 2000) 50000
      \<and> all_in (icao_altitude_difference s) (- 2500) 2500
      \<and> all_in (icao_baro_correction s) 800 1100)"

definition format_labels :: "string set" where
  \<comment> \<open>the labels of the formats a five-bit downlink format field can hold\<close>
  "format_labels = {get_format_label m d | m d. 0 \<le> d \<and> d \<le> 31}"

section \<open>The first version of the program: \<open>prog1.py\<close>\<close>

text \<open>
  \<open>prog1.py\<close> holds in one file what the second version splits into \<open>config.py\<close>,
  \<open>decoder.py\<close> and \<open>main.py\<close>. Its constants, its extraction functions and its
  ingestion loop are transcribed here from \<open>prog1.py\<close> under the prefix \<open>prog1_\<close>,
  over the same model of Python text, of binary64 numbers and of pyModeS, and over the
  same record of program variables.
\<close>

definition prog1_MAX_MESSAGE_LENGTH :: nat where
  "prog1_MAX_MESSAGE_LENGTH = 32"

definition prog1_hex_parts :: "string list \<Rightarrow> string list" where
  "prog1_hex_parts parts =
     (if 3 \<le> length parts \<and> upper (parts ! 1) \<in> {''DF'', ''UF''} then drop 2 parts
      else drop 1 parts)"

definition prog1_fill_bytes :: "nat list \<Rightarrow> nat \<Rightarrow> 8 word list" where
  \<comment> \<open>\<open>np.zeros(MAX_MESSAGE_LENGTH)\<close>, then \<open>message[i] = np.uint8(bytes_list[i])\<close> for
      \<open>i\<close> in \<open>range(message_length)\<close>\<close>
  "prog1_fill_bytes bytes_list n =
     fold (\<lambda>i m. m[i := of_nat (bytes_list ! i)]) [0..<n] (replicate prog1_MAX_MESSAGE_LENGTH 0)"

definition prog1_parse_ads_b_line ::
  "(string \<Rightarrow> float64 option) \<Rightarrow> string \<Rightarrow> (ADSBMessage \<times> string \<times> string) option" where
  "prog1_parse_ads_b_line np_float64 line =
     (let parts = split (strip line) in
      if length parts < 2 then None
      else case np_float64 (parts ! 0) of
        None \<Rightarrow> None
      | Some ts \<Rightarrow>
          let message_spaced = strip (upper (join '' '' (prog1_hex_parts parts)));
              message_str = replace_char CHR '' '' message_spaced
          in if length message_str = 0
                \<or> \<not> list_all (\<lambda>c. c \<in> set ''0123456789ABCDEF'') message_str
             then None
             else
               let bytes_list = map int16 (chunks2 message_str);
                   n = min (length bytes_list) prog1_MAX_MESSAGE_LENGTH
               in Some (\<lparr>timestamp = ts, message = prog1_fill_bytes bytes_list n,
                          message_length = n\<rparr>,
                        message_spaced, message_str))"

definition prog1_get_altitude_any_df :: "pyModeS \<Rightarrow> string \<Rightarrow> int \<Rightarrow> int option" where
  "prog1_get_altitude_any_df p msg_str df =
     (if df \<in> {17, 18} then
        (case adsb_typecode p msg_str of
           Raised \<Rightarrow> None
         | Returned None \<Rightarrow> None
         | Returned (Some tc) \<Rightarrow>
             if 9 \<le> tc \<and> tc \<le> 18 then
               (case adsb_altitude p msg_str of Raised \<Rightarrow> None | Returned a \<Rightarrow> a)
             else None)
      else if df \<in> {0, 4, 16, 20} then
        (case common_altcode p msg_str of Raised \<Rightarrow> None | Returned a \<Rightarrow> a)
      else None)"

definition prog1_get_squawk :: "pyModeS \<Rightarrow> string \<Rightarrow> int \<Rightarrow> string option" where
  "prog1_get_squawk p msg_str df =
     (if df \<in> {5, 21} then
        (case common_idcode p msg_str of Raised \<Rightarrow> None | Returned sq \<Rightarrow> Some sq)
      else None)"

definition prog1_get_velocity :: "pyModeS \<Rightarrow> string \<Rightarrow> float64 option" where
  "prog1_get_velocity p msg_str =
     (case pms_df p msg_str of
        Raised \<Rightarrow> None
      | Returned df \<Rightarrow>
          if df \<notin> {17, 18} then None
          else case adsb_typecode p msg_str of
            Raised \<Rightarrow> None
          | Returned tc \<Rightarrow>
              if tc = Some 19 then
                (case adsb_velocity p msg_str of
                   Raised \<Rightarrow> None
                 | Returned None \<Rightarrow> None
                 | Returned (Some (speed, heading, rate, tag)) \<Rightarrow> speed)
              else None)"

definition prog1_get_course :: "pyModeS \<Rightarrow> string \<Rightarrow> float64 option" where
  "prog1_get_course p msg_str =
     (case pms_df p msg_str of
        Raised \<Rightarrow> None
      | Returned df \<Rightarrow>
          if df \<notin> {17, 18} then None
          else case adsb_typecode p msg_str of
            Raised \<Rightarrow> None
          | Returned tc \<Rightarrow>
              if tc = Some 19 then
                (case adsb_velocity p msg_str of
                   Raised \<Rightarrow> None
                 | Returned None \<Rightarrow> None
                 | Returned (Some (speed, heading, rate, tag)) \<Rightarrow> heading)
              else None)"

definition prog1_MODE_MAP :: "char \<rightharpoonup> string" where
  "prog1_MODE_MAP = map_of
     [(CHR ''U'', ''AP''), (CHR ''/'', ''ALT''), (CHR ''M'', ''VNAV''), (CHR ''F'', ''LNAV''),
      (CHR ''P'', ''APP''), (CHR ''T'', ''TCAS''), (CHR ''C'', ''HDG'')]"

definition prog1_mode_label :: "char \<Rightarrow> string" where
  \<comment> \<open>\<open>MODE_MAP.get(m, m)\<close>\<close>
  "prog1_mode_label m = (case prog1_MODE_MAP m of Some l \<Rightarrow> l | None \<Rightarrow> [m])"

definition prog1_get_selected_altitude :: "pyModeS \<Rightarrow> string \<Rightarrow> (int \<times> string set) option" where
  "prog1_get_selected_altitude p msg_str =
     (case pms_df p msg_str of
        Raised \<Rightarrow> None
      | Returned df \<Rightarrow>
          if df \<notin> {17, 18} then None
          else case adsb_typecode p msg_str of
            Raised \<Rightarrow> None
          | Returned tc \<Rightarrow>
              if tc \<noteq> Some 29 then None
              else case adsb_selected_altitude p msg_str of
                Raised \<Rightarrow> None
              | Returned None \<Rightarrow> None
              | Returned (Some (None, raw_modes)) \<Rightarrow> None
              | Returned (Some (Some selected_alt, raw_modes)) \<Rightarrow>
                  if - 2000 \<le> selected_alt \<and> selected_alt \<le> 50000
                  then Some (selected_alt, prog1_mode_label ` set raw_modes)
                  else None)"

definition prog1_get_altitude_difference :: "pyModeS \<Rightarrow> string \<Rightarrow> int option" where
  "prog1_get_altitude_difference p msg_str =
     (case pms_df p msg_str of
        Raised \<Rightarrow> None
      | Returned df \<Rightarrow>
          if df \<notin> {17, 18} then None
          else case pms_typecode p msg_str of
            Raised \<Rightarrow> None
          | Returned tc \<Rightarrow>
              if tc \<noteq> Some 19 then None
              else case adsb_altitude_diff p msg_str of
                Raised \<Rightarrow> None
              | Returned None \<Rightarrow> None
              | Returned (Some altitude_diff) \<Rightarrow>
                  if - 2500 \<le> altitude_diff \<and> altitude_diff \<le> 2500
                  then Some altitude_diff else None)"

definition prog1_get_baro_correction :: "pyModeS \<Rightarrow> string \<Rightarrow> float64 option" where
  "prog1_get_baro_correction p msg_str =
     (case pms_df p msg_str of
        Raised \<Rightarrow> None
      | Returned df \<Rightarrow>
          if df \<notin> {17, 18} then None
          else case adsb_typecode p msg_str of
            Raised \<Rightarrow> None
          | Returned tc \<Rightarrow>
              if tc \<noteq> Some 29 then None
              else case adsb_baro_pressure_setting p msg_str of
                Raised \<Rightarrow> None
              | Returned None \<Rightarrow> None
              | Returned (Some baro_setting) \<Rightarrow>
                  if 800 \<le> baro_setting \<and> baro_setting \<le> 1100
                  then Some baro_setting else None)"

definition prog1_get_callsign :: "pyModeS \<Rightarrow> string \<Rightarrow> string option" where
  "prog1_get_callsign p msg_str =
     (case pms_df p msg_str of
        Raised \<Rightarrow> None
      | Returned df \<Rightarrow>
          if df \<notin> {17, 18} then None
          else case adsb_typecode p msg_str of
            Raised \<Rightarrow> None
          | Returned None \<Rightarrow> None
          | Returned (Some tc) \<Rightarrow>
              if 1 \<le> tc \<and> tc \<le> 4 then
                (case adsb_callsign p msg_str of
                   Raised \<Rightarrow> None
                 | Returned None \<Rightarrow> None
                 | Returned (Some callsign) \<Rightarrow>
                     if callsign = [] then None else Some (filter isalnum callsign))
              else None)"

definition prog1_get_format_label :: "string \<Rightarrow> int \<Rightarrow> string" where
  "prog1_get_format_label msg_str df =
     (let length_type =
        (if df \<in> {0, 4, 5, 11} then ''S''
         else if df \<in> {16, 17, 18, 19, 20, 21, 24} then ''L''
         else let length_bits = length msg_str * 4 in
              if length_bits = 56 then ''S''
              else if length_bits = 112 then ''L''
              else ''?'');
          label = ''DF'' @ str_int df
      in label @ ''('' @ length_type @ '')'')"

definition prog1_collect_timestamps :: "state \<Rightarrow> icao \<Rightarrow> float64 \<Rightarrow> int \<Rightarrow> state" where
  "prog1_collect_timestamps s aa ts tc =
     (let s1 = (if (9 \<le> tc \<and> tc \<le> 18) \<or> (20 \<le> tc \<and> tc \<le> 22)
                then s\<lparr>icao_airborne_pos_ts := append_to (icao_airborne_pos_ts s) aa ts\<rparr>
                else s);
          s2 = (if 5 \<le> tc \<and> tc \<le> 8
                then s1\<lparr>icao_surface_pos_ts := append_to (icao_surface_pos_ts s1) aa ts\<rparr>
                else s1);
          s3 = (if 1 \<le> tc \<and> tc \<le> 4
                then s2\<lparr>icao_ident_timestamps := append_to (icao_ident_timestamps s2) aa ts\<rparr>
                else s2);
          s4 = (if tc = 19
                then s3\<lparr>icao_speed_ts := append_to (icao_speed_ts s3) aa ts\<rparr>
                else s3);
          s5 = (if tc = 28
                then s4\<lparr>icao_status_ts := append_to (icao_status_ts s4) aa ts\<rparr>
                else s4);
          s6 = (if tc = 29
                then s5\<lparr>icao_target_state_ts := append_to (icao_target_state_ts s5) aa ts\<rparr>
                else s5)
      in if tc = 31
         then s6\<lparr>icao_operation_status_ts := append_to (icao_operation_status_ts s6) aa ts\<rparr>
         else s6)"

definition prog1_cpr_slots :: "state \<Rightarrow> icao \<Rightarrow> cpr_slot \<times> cpr_slot" where
  \<comment> \<open>\<open>cpr_messages.setdefault(aa, [None, None])\<close>\<close>
  "prog1_cpr_slots s aa = (case cpr_messages s aa of None \<Rightarrow> (None, None) | Some sl \<Rightarrow> sl)"

definition prog1_store_frame ::
  "cpr_slot \<times> cpr_slot \<Rightarrow> int \<Rightarrow> string \<times> float64 \<Rightarrow> cpr_slot \<times> cpr_slot" where
  "prog1_store_frame slots oe_flag frame =
     (if oe_flag = 0 \<or> oe_flag = - 2 then (Some frame, snd slots) else (fst slots, Some frame))"

definition prog1_cpr_block :: "pyModeS \<Rightarrow> state \<Rightarrow> icao \<Rightarrow> float64 \<Rightarrow> string \<Rightarrow> state" where
  "prog1_cpr_block p s aa ts message_str =
     (let slots = prog1_cpr_slots s aa;
          s1 = s\<lparr>cpr_messages := (cpr_messages s)(aa \<mapsto> slots)\<rparr>
      in case adsb_oe_flag p message_str of
           Raised \<Rightarrow> s1
         | Returned oe_flag \<Rightarrow>
             if oe_flag < - 2 \<or> 2 \<le> oe_flag then s1
             else
               let slots' = prog1_store_frame slots oe_flag (message_str, ts);
                   s2 = s1\<lparr>cpr_messages := (cpr_messages s1)(aa \<mapsto> slots')\<rparr>
               in case slots' of
                    (Some (msg0, t0), Some (msg1, t1)) \<Rightarrow>
                      if \<bar>fsub t0 t1\<bar> < 10 then
                        let s3 = s2\<lparr>position_calls :=
                                       position_calls s2 @ [(msg0, msg1, t0, t1)]\<rparr>
                        in case adsb_position p msg0 msg1 t0 t1 of
                             Raised \<Rightarrow> s3
                           | Returned pos \<Rightarrow>
                               let s4 = (case pos of
                                           None \<Rightarrow> s3
                                         | Some (lat, lon) \<Rightarrow>
                                             s3\<lparr>icao_positions :=
                                                  append_to (icao_positions s3) aa (ts, lat, lon)\<rparr>)
                               in s4\<lparr>cpr_messages := (cpr_messages s4)(aa \<mapsto> (None, None))\<rparr>
                      else s2
                  | _ \<Rightarrow> s2)"

definition prog1_velocity_block :: "pyModeS \<Rightarrow> state \<Rightarrow> icao \<Rightarrow> float64 \<Rightarrow> string \<Rightarrow> state" where
  "prog1_velocity_block p s aa ts message_str =
     (let s1 = (case prog1_get_velocity p message_str of
                  Some gs \<Rightarrow> s\<lparr>icao_speed := append_to (icao_speed s) aa (ts, gs)\<rparr>
                | None \<Rightarrow> s);
          s2 = (case prog1_get_course p message_str of
                  Some course \<Rightarrow> s1\<lparr>icao_courses := append_to (icao_courses s1) aa (ts, course)\<rparr>
                | None \<Rightarrow> s1)
      in case prog1_get_altitude_difference p message_str of
           None \<Rightarrow> s2
         | Some alt_diff \<Rightarrow>
             let s3 = s2\<lparr>icao_altitude_difference :=
                            append_to (icao_altitude_difference s2) aa (ts, alt_diff)\<rparr>
             in case current_baro_buffer s3 aa of
                  None \<Rightarrow> s3
                | Some (last_ts, last_baro) \<Rightarrow>
                    if \<bar>fsub ts last_ts\<bar> < 5 then
                      s3\<lparr>icao_gnss_altitude :=
                           append_to (icao_gnss_altitude s3) aa (ts, last_baro + alt_diff)\<rparr>
                    else s3)"

definition prog1_callsign_block :: "pyModeS \<Rightarrow> state \<Rightarrow> icao \<Rightarrow> string \<Rightarrow> state" where
  "prog1_callsign_block p s aa message_str =
     (case prog1_get_callsign p message_str of
        None \<Rightarrow> s
      | Some cs \<Rightarrow> if cs \<noteq> [] then s\<lparr>icao_callsigns := (icao_callsigns s)(aa \<mapsto> Str cs)\<rparr> else s)"

definition prog1_baro_correction_step :: "pyModeS \<Rightarrow> state \<Rightarrow> icao \<Rightarrow> float64 \<Rightarrow> string \<Rightarrow> state" where
  "prog1_baro_correction_step p s aa ts message_str =
     (case prog1_get_baro_correction p message_str of
        None \<Rightarrow> s
      | Some baro_corr \<Rightarrow>
          s\<lparr>icao_baro_correction := append_to (icao_baro_correction s) aa (ts, baro_corr)\<rparr>)"

definition prog1_target_state_block ::
  "pyModeS \<Rightarrow> state \<Rightarrow> icao \<Rightarrow> float64 \<Rightarrow> string \<Rightarrow> state" where
  "prog1_target_state_block p s aa ts message_str =
     (case prog1_get_selected_altitude p message_str of
        None \<Rightarrow> prog1_baro_correction_step p s aa ts message_str
      | Some (sel_alt_value, modes) \<Rightarrow>
          let s1 = s\<lparr>icao_selected_altitude :=
                        append_to (icao_selected_altitude s) aa (ts, sel_alt_value),
                      icao_has_selected_alt := (icao_has_selected_alt s)(aa \<mapsto> True)\<rparr>
          in case icao_callsigns s1 (modes_key aa) of
               Some (Str x) \<Rightarrow> s1
             | Some (StrSet existing_modes) \<Rightarrow>
                 prog1_baro_correction_step p
                   (s1\<lparr>icao_callsigns :=
                         (icao_callsigns s1)(modes_key aa \<mapsto> StrSet (existing_modes \<union> modes))\<rparr>)
                   aa ts message_str
             | None \<Rightarrow>
                 prog1_baro_correction_step p
                   (s1\<lparr>icao_callsigns :=
                         (icao_callsigns s1)(modes_key aa \<mapsto> StrSet ({} \<union> modes))\<rparr>)
                   aa ts message_str)"

definition prog1_adsb_block :: "pyModeS \<Rightarrow> state \<Rightarrow> icao \<Rightarrow> float64 \<Rightarrow> string \<Rightarrow> state" where
  \<comment> \<open>the body of \<open>if df in [17, 18]\<close>\<close>
  "prog1_adsb_block p s aa ts message_str =
     (case adsb_typecode p message_str of
        Raised \<Rightarrow> s
      | Returned None \<Rightarrow> s
      | Returned (Some tc) \<Rightarrow>
          let s1 = prog1_collect_timestamps s aa ts tc
          in if 9 \<le> tc \<and> tc \<le> 18 then prog1_cpr_block p s1 aa ts message_str
             else if tc = 19 then prog1_velocity_block p s1 aa ts message_str
             else if 1 \<le> tc \<and> tc \<le> 4 then prog1_callsign_block p s1 aa message_str
             else if tc = 29 then prog1_target_state_block p s1 aa ts message_str
             else s1)"

definition prog1_altitude_step ::
  "pyModeS \<Rightarrow> state \<Rightarrow> icao \<Rightarrow> int \<Rightarrow> float64 \<Rightarrow> string \<Rightarrow> state" where
  "prog1_altitude_step p s aa df ts message_str =
     (case prog1_get_altitude_any_df p message_str df of
        None \<Rightarrow> s
      | Some alt \<Rightarrow>
          if - 2000 \<le> alt \<and> alt \<le> 60000
          then s\<lparr>icao_altitude := append_to (icao_altitude s) aa (ts, alt),
                 current_baro_buffer := (current_baro_buffer s)(aa \<mapsto> (ts, alt))\<rparr>
          else s)"

definition prog1_squawk_step :: "pyModeS \<Rightarrow> state \<Rightarrow> icao \<Rightarrow> int \<Rightarrow> string \<Rightarrow> state" where
  "prog1_squawk_step p s aa df message_str =
     (case prog1_get_squawk p message_str df of
        None \<Rightarrow> s
      | Some sq \<Rightarrow>
          if sq \<noteq> [] then s\<lparr>icao_callsigns := (icao_callsigns s)(sq_key aa \<mapsto> Str sq)\<rparr>
          else s)"

definition prog1_decode_fields ::
  "pyModeS \<Rightarrow> state \<Rightarrow> icao \<Rightarrow> int \<Rightarrow> float64 \<Rightarrow> string \<Rightarrow> state" where
  \<comment> \<open>the body of the inner \<open>try\<close>\<close>
  "prog1_decode_fields p s aa df ts message_str =
     (let s1 = prog1_altitude_step p s aa df ts message_str;
          s2 = prog1_squawk_step p s1 aa df message_str
      in if df \<in> {17, 18} then prog1_adsb_block p s2 aa ts message_str else s2)"

definition prog1_register_message :: "state \<Rightarrow> icao \<Rightarrow> int \<Rightarrow> float64 \<Rightarrow> string \<Rightarrow> state" where
  \<comment> \<open>aircraft set, format label, first/last time, DF11 list\<close>
  "prog1_register_message s aa df ts message_str =
     (let fmt_label = prog1_get_format_label message_str df;
          s1 = s\<lparr>adsb_icao_list := insert aa (adsb_icao_list s),
                  icao_dfs := (icao_dfs s)(aa \<mapsto>
                     insert fmt_label (case icao_dfs s aa of None \<Rightarrow> {} | Some d \<Rightarrow> d)),
                  icao_times := (icao_times s)(aa \<mapsto>
                     (case icao_times s aa of
                        None \<Rightarrow> \<lparr>t_first = ts, t_last = ts\<rparr>
                      | Some t \<Rightarrow> t\<lparr>t_last := ts\<rparr>))\<rparr>
      in if df = 11 then s1\<lparr>icao_df11_ts := append_to (icao_df11_ts s1) aa ts\<rparr> else s1)"

definition prog1_target_excludes :: "string option \<Rightarrow> icao \<Rightarrow> bool" where
  \<comment> \<open>\<open>target_icao and aa != target_icao\<close>\<close>
  "prog1_target_excludes target_icao aa =
     (case target_icao of None \<Rightarrow> False | Some t \<Rightarrow> t \<noteq> [] \<and> aa \<noteq> Some t)"

definition prog1_process_line ::
  "(string \<Rightarrow> float64 option) \<Rightarrow> pyModeS \<Rightarrow> string option \<Rightarrow> state \<Rightarrow> string \<Rightarrow> state" where
  "prog1_process_line np_float64 p target_icao s line =
     (if strip line = [] then s
      else case prog1_parse_ads_b_line np_float64 line of
        None \<Rightarrow> s
      | Some (msg, message_spaced, message_str) \<Rightarrow>
          (case pms_icao p message_str of
             Raised \<Rightarrow> s
           | Returned aa \<Rightarrow>
               (case pms_df p message_str of
                  Raised \<Rightarrow> s
                | Returned df \<Rightarrow>
                    if prog1_target_excludes target_icao aa then s
                    else prog1_decode_fields p
                           (prog1_register_message s aa df (timestamp msg) message_str)
                           aa df (timestamp msg) message_str)))"

definition prog1_ingest ::
  "(string \<Rightarrow> float64 option) \<Rightarrow> pyModeS \<Rightarrow> string option \<Rightarrow> state \<Rightarrow> string list \<Rightarrow> state" where
  "prog1_ingest np_float64 p target_icao s lines = foldl (prog1_process_line np_float64 p target_icao) s lines"

section \<open>Decoders and inputs of the worked examples\<close>

definition pms_raising :: pyModeS where
  "pms_raising =
     \<lparr>pms_icao = (\<lambda>m. Raised), pms_df = (\<lambda>m. Raised), pms_typecode = (\<lambda>m. Raised),
      adsb_typecode = (\<lambda>m. Raised), adsb_altitude = (\<lambda>m. Raised),
      common_altcode = (\<lambda>m. Raised), common_idcode = (\<lambda>m. Raised),
      adsb_oe_flag = (\<lambda>m. Raised), adsb_position = (\<lambda>m0 m1 t0 t1. Raised),
      adsb_velocity = (\<lambda>m. Raised), adsb_selected_altitude = (\<lambda>m. Raised),
      adsb_altitude_diff = (\<lambda>m. Raised), adsb_baro_pressure_setting = (\<lambda>m. Raised),
      adsb_callsign = (\<lambda>m. Raised)\<rparr>"

definition msg_even :: string where
  "msg_even = ''8D40621D58C382D690C8AC2863A7''"

definition msg_odd :: string where
  "msg_odd = ''8D40621D58C386435CC412692AD6''"

definition pms_position :: pyModeS where
  \<comment> \<open>airborne-position squitters of aircraft 40621D; the pair resolves\<close>
  "pms_position =
     pms_raising\<lparr>pms_icao := (\<lambda>m. Returned (Some ''40621D'')), pms_df := (\<lambda>m. Returned 17),
       adsb_typecode := (\<lambda>m. Returned (Some 11)),
       adsb_altitude := (\<lambda>m. Returned (Some 38000)),
       adsb_oe_flag := (\<lambda>m. Returned (if m = msg_odd then 1 else 0)),
       adsb_position := (\<lambda>m0 m1 t0 t1. Returned (Some (52, 4)))\<rparr>"

definition pms_position_unresolved :: pyModeS where
  \<comment> \<open>the same, with a pairwise resolution that returns no position\<close>
  "pms_position_unresolved = pms_position\<lparr>adsb_position := (\<lambda>m0 m1 t0 t1. Returned None)\<rparr>"

definition even_frame_at :: "float64 \<Rightarrow> state" where
  \<comment> \<open>an even frame of 40621D waits in the buffer since time \<open>t\<close>\<close>
  "even_frame_at t =
     init_state\<lparr>cpr_messages := [Some ''40621D'' \<mapsto> (Some (msg_even, t), None)]\<rparr>"



definition airborne_times :: "float64 list \<Rightarrow> state" where
  "airborne_times ts = init_state\<lparr>icao_airborne_pos_ts := [Some ''40621D'' \<mapsto> ts]\<rparr>"

definition line_5 :: string where
  "line_5 = ''5.0 8D40621D58C382D690C8AC2863A7''"

definition line_3 :: string where
  "line_3 = ''3.0 8D40621D58C386435CC412692AD6''"

definition pms_mixed :: pyModeS where
  \<comment> \<open>squitters of aircraft 40621D (format 17), and surveillance replies of aircraft
      ABC123 in the formats 4 and 5\<close>
  "pms_mixed =
     pms_raising\<lparr>
       pms_icao := (\<lambda>m. Returned (Some (if take 2 m = ''8D'' then ''40621D'' else ''ABC123''))),
       pms_df := (\<lambda>m. Returned (if take 2 m = ''8D'' then 17 else if take 2 m = ''20'' then 4 else 5))\<rparr>"

definition line_df4 :: string where
  "line_df4 = ''1.0 20001838CA3804''"

definition line_df5 :: string where
  "line_df5 = ''2.0 28001A1B2C3D4E''"

definition pms_ident :: pyModeS where
  \<comment> \<open>identification squitters of aircraft 40621D carrying two different callsigns\<close>
  "pms_ident =
     pms_raising\<lparr>pms_icao := (\<lambda>m. Returned (Some ''40621D'')), pms_df := (\<lambda>m. Returned 17),
       adsb_typecode := (\<lambda>m. Returned (Some 4)),
       adsb_callsign := (\<lambda>m. Returned (Some (if m = msg_even then ''KLM1023_'' else ''AFR99___'')))\<rparr>"

definition pms_squawk :: pyModeS where
  \<comment> \<open>identity replies (format 5) of aircraft ABC123 with the identity code 9999\<close>
  "pms_squawk =
     pms_raising\<lparr>pms_icao := (\<lambda>m. Returned (Some ''ABC123'')), pms_df := (\<lambda>m. Returned 5),
       common_idcode := (\<lambda>m. Returned ''9999'')\<rparr>"

definition line_0_1 :: string where
  "line_0_1 = ''0.1 8D40621D58C382D690C8AC2863A7''"

definition line_10_1 :: string where
  "line_10_1 = ''10.1 8D40621D58C386435CC412692AD6''"

section \<open>Properties of the line framer\<close>

lemma strip_DF: "strip ''DF'' = ''DF''"
  by (simp add: strip_def isspace_def)

lemma strip_UF: "strip ''UF'' = ''UF''"
  by (simp add: strip_def isspace_def)

lemma fill_bytes_DF: "fill_bytes [223] (Suc 0) = 0xDF # replicate 31 0"
  by (simp add: fill_bytes_def MAX_MESSAGE_LENGTH_def numeral_eq_Suc)

lemma int16_DF: "int16 ''DF'' = 223"
  by (simp add: int16_def hexval_def)

lemmas float_eval =
  round53_def ilog2_def pow2_def round_half_even_def Let_def bit_length.simps

lemma round53_examples:
  "round53 (1 / 10) = 3602879701896397 / 36028797018963968"
  "round53 (- (1 / 3)) = - (6004799503160661 / 18014398509481984)"
  "round53 (2 ^ 53 + 1) = 2 ^ 53" "round53 (2 ^ 53 + 3) = 2 ^ 53 + 4"
  by (simp_all add: float_eval)

lemma decimal_12_5: "decimal_float64 ''12.5'' = Some (25 / 2)"
  by (simp add: decimal_float64_def int10_def hexval_def float_eval)

text \<open>
  Claim C10. A line of exactly two whitespace-separated tokens whose first token parses as
  a timestamp is accepted when the second token is \<open>DF\<close> in any letter case, with the
  one-byte payload \<open>0xDF\<close> (the marker itself is read as hexadecimal), and is discarded
  when the second token is \<open>UF\<close>; the marker is skipped only when at least three tokens
  are present.
\<close>

theorem two_token_line:
  assumes "split (strip line) = [t0, t1]" and "np_float64 t0 = Some ts"
  shows "(upper t1 = ''DF'' \<longrightarrow>
            parse_ads_b_line np_float64 line =
              Some (\<lparr>timestamp = ts, message = 0xDF # replicate 31 0, message_length = 1\<rparr>,
                    ''DF'', ''DF''))
       \<and> (upper t1 = ''UF'' \<longrightarrow> parse_ads_b_line np_float64 line = None)
       \<and> hex_parts [t0, t1] = [t1]
       \<and> (upper t1 \<in> {''DF'', ''UF''} \<longrightarrow> hex_parts (t0 # t1 # t2 # rest) = t2 # rest)"
  using assms
  by (simp add: parse_ads_b_line_def hex_parts_def Let_def strip_DF strip_UF replace_char_def
      int16_DF fill_bytes_DF MAX_MESSAGE_LENGTH_def)

theorem two_token_line_witness:
  "parse_ads_b_line decimal_float64 ''12.5 df'' =
     Some (\<lparr>timestamp = 25 / 2, message = 0xDF # replicate 31 0, message_length = 1\<rparr>,
           ''DF'', ''DF'')
   \<and> parse_ads_b_line decimal_float64 ''12.5 UF'' = None
   \<and> hex_parts [''12.5'', ''df'', ''8D'', ''4840''] = [''8D'', ''4840'']"
proof -
  have s1: "split (strip ''12.5 df'') = [''12.5'', ''df'']"
    by (simp add: split_def strip_def isspace_def)
  have s2: "split (strip ''12.5 UF'') = [''12.5'', ''UF'']"
    by (simp add: split_def strip_def isspace_def)
  have u1: "upper ''df'' = ''DF''" and u2: "upper ''UF'' = ''UF''"
    by (simp_all add: upper_def upper_char_def)
  show ?thesis
    using two_token_line [where line = "''12.5 df''" and ?np_float64.0 = decimal_float64
            and ?t0.0 = "''12.5''" and ?t1.0 = "''df''" and ts = "25 / 2"
            and ?t2.0 = "''8D''" and rest = "[''4840'']"]
          two_token_line [where line = "''12.5 UF''" and ?np_float64.0 = decimal_float64
            and ?t0.0 = "''12.5''" and ?t1.0 = "''UF''" and ts = "25 / 2"]
    by (simp add: s1 s2 decimal_12_5 u1 u2)
qed

section \<open>Whole runs: identified lines, format labels, untouched fields\<close>

lemma str_int_vals:
  "str_int 0 = ''0''" "str_int 1 = ''1''" "str_int 2 = ''2''" "str_int 3 = ''3''" "str_int 4 = ''4''" "str_int 5 = ''5''" "str_int 6 = ''6''" "str_int 7 = ''7''" "str_int 8 = ''8''" "str_int 9 = ''9''" "str_int 10 = ''10''" "str_int 11 = ''11''" "str_int 12 = ''12''" "str_int 13 = ''13''" "str_int 14 = ''14''" "str_int 15 = ''15''" "str_int 16 = ''16''" "str_int 17 = ''17''" "str_int 18 = ''18''" "str_int 19 = ''19''" "str_int 20 = ''20''" "str_int 21 = ''21''" "str_int 22 = ''22''" "str_int 23 = ''23''" "str_int 24 = ''24''" "str_int 25 = ''25''" "str_int 26 = ''26''" "str_int 27 = ''27''" "str_int 28 = ''28''" "str_int 29 = ''29''" "str_int 30 = ''30''" "str_int 31 = ''31''"
  by (simp_all add: str_int_def str_nat.simps)

lemma format_17_18:
  assumes "0 \<le> d" "d \<le> 31"
  shows "contains ''DF17'' (get_format_label m d) \<longleftrightarrow> get_format_label m d = ''DF17(L)''"
    and "contains ''DF18'' (get_format_label m d) \<longleftrightarrow> get_format_label m d = ''DF18(L)''"
proof -
  have cases: "d = 0 \<or> d = 1 \<or> d = 2 \<or> d = 3 \<or> d = 4 \<or> d = 5 \<or> d = 6 \<or> d = 7 \<or> d = 8 \<or> d = 9 \<or> d = 10 \<or> d = 11 \<or> d = 12 \<or> d = 13 \<or> d = 14 \<or> d = 15 \<or> d = 16 \<or> d = 17 \<or> d = 18 \<or> d = 19 \<or> d = 20 \<or> d = 21 \<or> d = 22 \<or> d = 23 \<or> d = 24 \<or> d = 25 \<or> d = 26 \<or> d = 27 \<or> d = 28 \<or> d = 29 \<or> d = 30 \<or> d = 31"
    using assms by arith
  show "contains ''DF17'' (get_format_label m d) \<longleftrightarrow> get_format_label m d = ''DF17(L)''"
    using cases by (elim disjE) (simp_all add: get_format_label_def str_int_vals)
  show "contains ''DF18'' (get_format_label m d) \<longleftrightarrow> get_format_label m d = ''DF18(L)''"
    using cases by (elim disjE) (simp_all add: get_format_label_def str_int_vals)
qed



lemma has_adsb_format_labels:
  assumes "L \<subseteq> format_labels"
  shows "has_adsb L \<longleftrightarrow> ''DF17(L)'' \<in> L \<or> ''DF18(L)'' \<in> L"
proof -
  have *: "(contains ''DF17'' l \<longleftrightarrow> l = ''DF17(L)'') \<and> (contains ''DF18'' l \<longleftrightarrow> l = ''DF18(L)'')"
    if "l \<in> L" for l
  proof -
    from that assms obtain m d where l: "l = get_format_label m d" and d: "0 \<le> d" "d \<le> 31"
      unfolding format_labels_def by blast
    show ?thesis
      unfolding l using format_17_18 [OF d] by simp
  qed
  show ?thesis
  proof
    assume "has_adsb L"
    then obtain l where "l \<in> L" and "contains ''DF17'' l \<or> contains ''DF18'' l"
      unfolding has_adsb_def by blast
    with * [of l] show "''DF17(L)'' \<in> L \<or> ''DF18(L)'' \<in> L"
      by blast
  next
    assume r: "''DF17(L)'' \<in> L \<or> ''DF18(L)'' \<in> L"
    then show "has_adsb L"
    proof
      assume a: "''DF17(L)'' \<in> L"
      with * [of "''DF17(L)''"] have "contains ''DF17'' ''DF17(L)''" by blast
      with a show ?thesis unfolding has_adsb_def by blast
    next
      assume a: "''DF18(L)'' \<in> L"
      with * [of "''DF18(L)''"] have "contains ''DF18'' ''DF18(L)''" by blast
      with a show ?thesis unfolding has_adsb_def by blast
    qed
  qed
qed



lemma collect_timestamps_static:
  "icao_times (collect_timestamps s aa ts tc) = icao_times s"
  "icao_dfs (collect_timestamps s aa ts tc) = icao_dfs s"
  "adsb_icao_list (collect_timestamps s aa ts tc) = adsb_icao_list s"
  "icao_callsigns (collect_timestamps s aa ts tc) = icao_callsigns s"
  "icao_altitude (collect_timestamps s aa ts tc) = icao_altitude s"
  "icao_selected_altitude (collect_timestamps s aa ts tc) = icao_selected_altitude s"
  "icao_altitude_difference (collect_timestamps s aa ts tc) = icao_altitude_difference s"
  "icao_baro_correction (collect_timestamps s aa ts tc) = icao_baro_correction s"
  by (simp_all add: collect_timestamps_def Let_def)

lemma altitude_step_static:
  "icao_times (altitude_step p s aa df ts m) = icao_times s"
  "icao_dfs (altitude_step p s aa df ts m) = icao_dfs s"
  "adsb_icao_list (altitude_step p s aa df ts m) = adsb_icao_list s"
  "icao_callsigns (altitude_step p s aa df ts m) = icao_callsigns s"
  "icao_selected_altitude (altitude_step p s aa df ts m) = icao_selected_altitude s"
  "icao_altitude_difference (altitude_step p s aa df ts m) = icao_altitude_difference s"
  "icao_baro_correction (altitude_step p s aa df ts m) = icao_baro_correction s"
  by (simp_all add: altitude_step_def split: option.splits)

lemma squawk_step_static:
  "icao_times (squawk_step p s aa df m) = icao_times s"
  "icao_dfs (squawk_step p s aa df m) = icao_dfs s"
  "adsb_icao_list (squawk_step p s aa df m) = adsb_icao_list s"
  "icao_altitude (squawk_step p s aa df m) = icao_altitude s"
  "icao_selected_altitude (squawk_step p s aa df m) = icao_selected_altitude s"
  "icao_altitude_difference (squawk_step p s aa df m) = icao_altitude_difference s"
  "icao_baro_correction (squawk_step p s aa df m) = icao_baro_correction s"
  by (simp_all add: squawk_step_def split: option.splits)

lemma cpr_block_static:
  "icao_times (cpr_block p s aa ts m) = icao_times s"
  "icao_dfs (cpr_block p s aa ts m) = icao_dfs s"
  "adsb_icao_list (cpr_block p s aa ts m) = adsb_icao_list s"
  "icao_callsigns (cpr_block p s aa ts m) = icao_callsigns s"
  "icao_altitude (cpr_block p s aa ts m) = icao_altitude s"
  "icao_selected_altitude (cpr_block p s aa ts m) = icao_selected_altitude s"
  "icao_altitude_difference (cpr_block p s aa ts m) = icao_altitude_difference s"
  "icao_baro_correction (cpr_block p s aa ts m) = icao_baro_correction s"
  by (simp_all add: cpr_block_def Let_def split: call.splits option.splits prod.splits)

lemma velocity_block_static:
  "icao_times (velocity_block p s aa ts m) = icao_times s"
  "icao_dfs (velocity_block p s aa ts m) = icao_dfs s"
  "adsb_icao_list (velocity_block p s aa ts m) = adsb_icao_list s"
  "icao_callsigns (velocity_block p s aa ts m) = icao_callsigns s"
  "icao_altitude (velocity_block p s aa ts m) = icao_altitude s"
  "icao_selected_altitude (velocity_block p s aa ts m) = icao_selected_altitude s"
  "icao_baro_correction (velocity_block p s aa ts m) = icao_baro_correction s"
  by (simp_all add: velocity_block_def Let_def split: option.splits prod.splits)

lemma callsign_block_static:
  "icao_times (callsign_block p s aa m) = icao_times s"
  "icao_dfs (callsign_block p s aa m) = icao_dfs s"
  "adsb_icao_list (callsign_block p s aa m) = adsb_icao_list s"
  "icao_altitude (callsign_block p s aa m) = icao_altitude s"
  "icao_selected_altitude (callsign_block p s aa m) = icao_selected_altitude s"
  "icao_altitude_difference (callsign_block p s aa m) = icao_altitude_difference s"
  "icao_baro_correction (callsign_block p s aa m) = icao_baro_correction s"
  by (simp_all add: callsign_block_def split: option.splits)

lemma baro_correction_step_static:
  "icao_times (baro_correction_step p s aa ts m) = icao_times s"
  "icao_dfs (baro_correction_step p s aa ts m) = icao_dfs s"
  "adsb_icao_list (baro_correction_step p s aa ts m) = adsb_icao_list s"
  "icao_callsigns (baro_correction_step p s aa ts m) = icao_callsigns s"
  "icao_altitude (baro_correction_step p s aa ts m) = icao_altitude s"
  "icao_selected_altitude (baro_correction_step p s aa ts m) = icao_selected_altitude s"
  "icao_altitude_difference (baro_correction_step p s aa ts m) = icao_altitude_difference s"
  by (simp_all add: baro_correction_step_def split: option.splits)

lemma target_state_block_static:
  "icao_times (target_state_block p s aa ts m) = icao_times s"
  "icao_dfs (target_state_block p s aa ts m) = icao_dfs s"
  "adsb_icao_list (target_state_block p s aa ts m) = adsb_icao_list s"
  "icao_altitude (target_state_block p s aa ts m) = icao_altitude s"
  "icao_altitude_difference (target_state_block p s aa ts m) = icao_altitude_difference s"
  by (simp_all add: target_state_block_def baro_correction_step_static Let_def
      split: option.splits prod.splits pyval.splits)

lemma adsb_block_static:
  "icao_times (adsb_block p s aa ts m) = icao_times s"
  "icao_dfs (adsb_block p s aa ts m) = icao_dfs s"
  "adsb_icao_list (adsb_block p s aa ts m) = adsb_icao_list s"
  "icao_altitude (adsb_block p s aa ts m) = icao_altitude s"
  by (simp_all add: adsb_block_def Let_def collect_timestamps_static cpr_block_static
      velocity_block_static callsign_block_static target_state_block_static
      split: call.splits option.splits)

lemma decode_fields_static:
  "icao_times (decode_fields p s aa df ts m) = icao_times s"
  "icao_dfs (decode_fields p s aa df ts m) = icao_dfs s"
  "adsb_icao_list (decode_fields p s aa df ts m) = adsb_icao_list s"
  by (simp_all add: decode_fields_def Let_def adsb_block_static squawk_step_static
      altitude_step_static)

lemma process_line_identify:
  "process_line np p target s line =
     (case identify np p target line of
        None \<Rightarrow> s
      | Some (aa, df, ts, m) \<Rightarrow> decode_fields p (register_message s aa df ts m) aa df ts m)"
  by (simp add: process_line_def identify_def split: option.splits call.splits prod.splits)

lemma identify_df:
  assumes "identify np p target line = Some (aa, df, ts, m)"
  shows "pms_df p m = Returned df"
  using assms
  by (simp add: identify_def split: if_splits option.splits call.splits prod.splits)

section \<open>Runs of the loop\<close>

lemma register_message_fields:
  "icao_times (register_message s aa df ts m)
     = (icao_times s)(aa \<mapsto> (case icao_times s aa of
          None \<Rightarrow> \<lparr>t_first = ts, t_last = ts\<rparr> | Some t \<Rightarrow> t\<lparr>t_last := ts\<rparr>))"
  "icao_dfs (register_message s aa df ts m)
     = (icao_dfs s)(aa \<mapsto> insert (get_format_label m df) (labels_of s aa))"
  "adsb_icao_list (register_message s aa df ts m) = insert aa (adsb_icao_list s)"
  "icao_callsigns (register_message s aa df ts m) = icao_callsigns s"
  "icao_altitude (register_message s aa df ts m) = icao_altitude s"
  "icao_selected_altitude (register_message s aa df ts m) = icao_selected_altitude s"
  "icao_altitude_difference (register_message s aa df ts m) = icao_altitude_difference s"
  "icao_baro_correction (register_message s aa df ts m) = icao_baro_correction s"
  "cpr_messages (register_message s aa df ts m) = cpr_messages s"
  "position_calls (register_message s aa df ts m) = position_calls s"
  by (simp_all add: register_message_def labels_of_def Let_def)

lemma ingest_Cons:
  "ingest np p target s (line # lines) = ingest np p target (process_line np p target s line) lines"
  by (simp add: ingest_def)

lemma ingest_Nil: "ingest np p target s [] = s"
  by (simp add: ingest_def)

lemmas framing_eval =
  parse_ads_b_line_def split_def strip_def isspace_def hex_parts_def upper_def upper_char_def
  replace_char_def decimal_float64_def int10_def hexval_def float_eval

lemma msg_neq: "msg_even \<noteq> msg_odd" "msg_odd \<noteq> msg_even"
  by (simp_all add: msg_even_def msg_odd_def)

lemma init_state_cpr:
  "cpr_messages init_state = Map.empty" "position_calls init_state = []"
  by (simp_all add: init_state_def)

section \<open>CPR pairing\<close>

lemmas float_sub_eval = fsub_def float_eval

lemma fsub_small:
  "fsub 100 104 = - 4" "fsub 90 104 = - 14" "fsub 104 100 = 4" "fsub 106 100 = 6"
  by (simp_all add: float_sub_eval)

lemma collect_timestamps_keeps:
  "cpr_messages (collect_timestamps s aa ts tc) = cpr_messages s"
  "position_calls (collect_timestamps s aa ts tc) = position_calls s"
  "icao_positions (collect_timestamps s aa ts tc) = icao_positions s"
  "current_baro_buffer (collect_timestamps s aa ts tc) = current_baro_buffer s"
  "icao_gnss_altitude (collect_timestamps s aa ts tc) = icao_gnss_altitude s"
  by (simp_all add: collect_timestamps_def Let_def)

lemma altitude_step_keeps:
  "cpr_messages (altitude_step p s aa df ts m) = cpr_messages s"
  "position_calls (altitude_step p s aa df ts m) = position_calls s"
  "icao_positions (altitude_step p s aa df ts m) = icao_positions s"
  "icao_gnss_altitude (altitude_step p s aa df ts m) = icao_gnss_altitude s"
  by (simp_all add: altitude_step_def split: option.splits)

lemma squawk_step_keeps:
  "cpr_messages (squawk_step p s aa df m) = cpr_messages s"
  "position_calls (squawk_step p s aa df m) = position_calls s"
  "icao_positions (squawk_step p s aa df m) = icao_positions s"
  "icao_gnss_altitude (squawk_step p s aa df m) = icao_gnss_altitude s"
  "current_baro_buffer (squawk_step p s aa df m) = current_baro_buffer s"
  by (simp_all add: squawk_step_def split: option.splits)

lemma before_dispatch_keeps:
  "cpr_messages (before_dispatch p s aa df ts m tc) = cpr_messages s"
  "position_calls (before_dispatch p s aa df ts m tc) = position_calls s"
  "icao_positions (before_dispatch p s aa df ts m tc) = icao_positions s"
  "icao_gnss_altitude (before_dispatch p s aa df ts m tc) = icao_gnss_altitude s"
  by (simp_all add: before_dispatch_def collect_timestamps_keeps squawk_step_keeps
      altitude_step_keeps)

lemma cpr_slots_before_dispatch:
  "cpr_slots (before_dispatch p s aa df ts m tc) aa = cpr_slots s aa"
  by (simp add: cpr_slots_def before_dispatch_keeps)

lemma decode_fields_position:
  assumes "df \<in> {17, 18}" "adsb_typecode p m = Returned (Some tc)" "9 \<le> tc" "tc \<le> 18"
  shows "decode_fields p s aa df ts m = cpr_block p (before_dispatch p s aa df ts m tc) aa ts m"
  using assms by (simp add: decode_fields_def adsb_block_def before_dispatch_def Let_def)

lemma cpr_block_stale:
  assumes "adsb_oe_flag p m = Returned oe" and "- 2 \<le> oe" and "oe < 2"
    and "store_frame (cpr_slots s aa) oe (m, ts) = (Some (m0, t0), Some (m1, t1))"
    and "10 \<le> \<bar>fsub t0 t1\<bar>"
  shows "cpr_block p s aa ts m
         = s\<lparr>cpr_messages := (cpr_messages s)(aa \<mapsto> (Some (m0, t0), Some (m1, t1)))\<rparr>"
  using assms by (simp add: cpr_block_def Let_def)

lemma cpr_block_fresh_returned:
  assumes "adsb_oe_flag p m = Returned oe" and "- 2 \<le> oe" and "oe < 2"
    and "store_frame (cpr_slots s aa) oe (m, ts) = (Some (m0, t0), Some (m1, t1))"
    and "\<bar>fsub t0 t1\<bar> < 10"
    and "adsb_position p m0 m1 t0 t1 = Returned pos"
  shows "cpr_block p s aa ts m
         = s\<lparr>position_calls := position_calls s @ [(m0, m1, t0, t1)],
              icao_positions := (case pos of None \<Rightarrow> icao_positions s
                  | Some (lat, lon) \<Rightarrow> append_to (icao_positions s) aa (ts, lat, lon)),
              cpr_messages := (cpr_messages s)(aa \<mapsto> (None, None))\<rparr>"
  using assms by (cases pos) (simp_all add: cpr_block_def Let_def split: prod.splits)

text \<open>
  Claim C1, as the code has it. An airborne-position frame (format 17 or 18, type code
  9 to 18, parity 0 or 1) is stored in its slot; when both slots are then populated, the
  time difference as the code computes it (the binary64 subtraction) is below 10 seconds
  and the call of pairwise resolution returns, that call is made exactly once, on the
  buffered pair, both slots are cleared whether or not it returned a position, and a fix
  is appended exactly when it returned one.
\<close>

theorem cpr_fresh_pair_resolved:
  assumes "df \<in> {17, 18}" and "adsb_typecode p m = Returned (Some tc)"
    and "9 \<le> tc" and "tc \<le> 18"
    and "adsb_oe_flag p m = Returned oe" and "oe = 0 \<or> oe = 1"
    and "store_frame (cpr_slots s aa) oe (m, ts) = (Some (m0, t0), Some (m1, t1))"
    and "\<bar>fsub t0 t1\<bar> < 10"
    and "adsb_position p m0 m1 t0 t1 = Returned pos"
  shows "position_calls (decode_fields p s aa df ts m) = position_calls s @ [(m0, m1, t0, t1)]
       \<and> cpr_messages (decode_fields p s aa df ts m) aa = Some (None, None)
       \<and> icao_positions (decode_fields p s aa df ts m)
           = (case pos of None \<Rightarrow> icao_positions s
              | Some (lat, lon) \<Rightarrow> append_to (icao_positions s) aa (ts, lat, lon))"
proof -
  have range: "- 2 \<le> oe" "oe < 2"
    using assms(6) by auto
  have frame: "store_frame (cpr_slots (before_dispatch p s aa df ts m tc) aa) oe (m, ts)
               = (Some (m0, t0), Some (m1, t1))"
    using assms(7) by (simp add: cpr_slots_before_dispatch)
  note ret = cpr_block_fresh_returned [OF assms(5) range frame assms(8) assms(9)]
  show ?thesis
    unfolding decode_fields_position [OF assms(1-4)]
    by (simp add: ret before_dispatch_keeps split: option.splits)
qed

theorem cpr_fresh_pair_resolved_witness:
  "position_calls (decode_fields pms_position (even_frame_at 100) (Some ''40621D'') 17 104 msg_odd)
     = [(msg_even, msg_odd, 100, 104)]
   \<and> cpr_messages (decode_fields pms_position (even_frame_at 100) (Some ''40621D'') 17 104 msg_odd)
       (Some ''40621D'') = Some (None, None)
   \<and> icao_positions (decode_fields pms_position (even_frame_at 100) (Some ''40621D'') 17 104 msg_odd)
       (Some ''40621D'') = Some [(104, 52, 4)]
   \<and> position_calls
       (decode_fields pms_position_unresolved (even_frame_at 100) (Some ''40621D'') 17 104 msg_odd)
     = [(msg_even, msg_odd, 100, 104)]
   \<and> cpr_messages
       (decode_fields pms_position_unresolved (even_frame_at 100) (Some ''40621D'') 17 104 msg_odd)
       (Some ''40621D'') = Some (None, None)
   \<and> icao_positions
       (decode_fields pms_position_unresolved (even_frame_at 100) (Some ''40621D'') 17 104 msg_odd)
       (Some ''40621D'') = None"
  using cpr_fresh_pair_resolved [where df = 17 and p = pms_position and m = msg_odd and tc = 11
      and oe = 1 and s = "even_frame_at 100" and aa = "Some ''40621D''" and ts = 104
      and ?m0.0 = msg_even and ?t0.0 = 100 and ?m1.0 = msg_odd and ?t1.0 = 104
      and pos = "Some (52, 4)"]
    cpr_fresh_pair_resolved [where df = 17 and p = pms_position_unresolved and m = msg_odd
      and tc = 11 and oe = 1 and s = "even_frame_at 100" and aa = "Some ''40621D''" and ts = 104
      and ?m0.0 = msg_even and ?t0.0 = 100 and ?m1.0 = msg_odd and ?t1.0 = 104
      and pos = None]
  by (simp add: pms_position_unresolved_def pms_position_def pms_raising_def even_frame_at_def
      init_state_def cpr_slots_def store_frame_def fsub_small append_to_def)

lemma cpr_block_waiting:
  assumes "adsb_oe_flag p m = Returned oe" and "- 2 \<le> oe" and "oe < 2"
    and "fst (store_frame (cpr_slots s aa) oe (m, ts)) = None
         \<or> snd (store_frame (cpr_slots s aa) oe (m, ts)) = None"
  shows "cpr_block p s aa ts m
         = s\<lparr>cpr_messages := (cpr_messages s)(aa \<mapsto> store_frame (cpr_slots s aa) oe (m, ts))\<rparr>"
proof -
  obtain a b where ab: "store_frame (cpr_slots s aa) oe (m, ts) = (a, b)"
    by (cases "store_frame (cpr_slots s aa) oe (m, ts)") auto
  with assms(4) have "a = None \<or> b = None" by simp
  then show ?thesis
    using assms(1-3) ab
    by (cases a; cases b) (simp_all add: cpr_block_def Let_def)
qed

text \<open>
  The timestamps \<open>0.1\<close> and \<open>10.1\<close> as binary64 numbers, and their difference: the exact
  gap is \<open>10 - 13 / 2^55\<close>, and the subtraction rounds it to \<open>10\<close>.
\<close>

lemma float64_10_1: "round53 (101 / 10) = 5685794529555251 / 562949953421312"
  by (simp add: float_eval)

lemma rounded_gap:
  "fsub (3602879701896397 / 36028797018963968) (5685794529555251 / 562949953421312) = - 10"
  by (simp add: float_sub_eval)

lemma identify_lines_rounded:
  "identify decimal_float64 pms_position None line_0_1
     = Some (Some ''40621D'', 17, 3602879701896397 / 36028797018963968, msg_even)"
  "identify decimal_float64 pms_position None line_10_1
     = Some (Some ''40621D'', 17, 5685794529555251 / 562949953421312, msg_odd)"
  by (simp_all add: identify_def line_0_1_def line_10_1_def framing_eval
      pms_position_def pms_raising_def target_excludes_def msg_even_def msg_odd_def)

lemma rounded_run_first:
  "cpr_messages (process_line decimal_float64 pms_position None init_state line_0_1)
     = [Some ''40621D'' \<mapsto> (Some (msg_even, 3602879701896397 / 36028797018963968), None)]"
  "position_calls (process_line decimal_float64 pms_position None init_state line_0_1) = []"
proof -
  let ?t = "3602879701896397 / 36028797018963968 :: float64"
  let ?s = "register_message init_state (Some ''40621D'') 17 ?t msg_even"
  let ?b = "before_dispatch pms_position ?s (Some ''40621D'') 17 ?t msg_even 11"
  have tc: "adsb_typecode pms_position msg_even = Returned (Some 11)"
    and oe: "adsb_oe_flag pms_position msg_even = Returned 0"
    by (simp_all add: pms_position_def pms_raising_def msg_neq)
  have slots: "cpr_slots ?b (Some ''40621D'') = (None, None)"
    unfolding cpr_slots_before_dispatch
    by (simp add: cpr_slots_def register_message_fields init_state_cpr)
  have dec: "decode_fields pms_position ?s (Some ''40621D'') 17 ?t msg_even
        = cpr_block pms_position ?b (Some ''40621D'') ?t msg_even"
    by (rule decode_fields_position [OF _ tc]) simp_all
  have blk: "cpr_block pms_position ?b (Some ''40621D'') ?t msg_even
        = ?b\<lparr>cpr_messages := (cpr_messages ?b)(Some ''40621D'' \<mapsto>
              store_frame (cpr_slots ?b (Some ''40621D'')) 0 (msg_even, ?t))\<rparr>"
    by (rule cpr_block_waiting [OF oe]) (simp_all add: slots store_frame_def)
  show "cpr_messages (process_line decimal_float64 pms_position None init_state line_0_1)
     = [Some ''40621D'' \<mapsto> (Some (msg_even, ?t), None)]"
    unfolding process_line_identify identify_lines_rounded
    by (simp add: dec blk slots store_frame_def before_dispatch_keeps register_message_fields
        init_state_cpr)
  show "position_calls (process_line decimal_float64 pms_position None init_state line_0_1) = []"
    unfolding process_line_identify identify_lines_rounded
    by (simp add: dec blk before_dispatch_keeps register_message_fields init_state_cpr)
qed

text \<open>
  The claim as the specification words it fails on a pair whose timestamps differ by less
  than 10 seconds while their binary64 difference is not below 10. In a run of two lines,
  the even frame of 40621D stamped \<open>0.1\<close> and its odd frame stamped \<open>10.1\<close>, both slots
  are populated afterwards, the stored timestamps differ by \<open>10 - 13 / 2^55\<close>, and
  pairwise resolution has not been called: the code's test \<open>abs(t0 - t1) < 10\<close> sees the
  rounded difference \<open>10.0\<close>. The decoder of this run returns a position whenever asked.
\<close>

theorem cpr_rounded_gap_counterexample:
  "cpr_messages (ingest decimal_float64 pms_position None init_state [line_0_1, line_10_1])
     (Some ''40621D'')
     = Some (Some (msg_even, 3602879701896397 / 36028797018963968),
             Some (msg_odd, 5685794529555251 / 562949953421312))
   \<and> \<bar>3602879701896397 / 36028797018963968 - 5685794529555251 / 562949953421312 :: real\<bar> < 10
   \<and> position_calls (ingest decimal_float64 pms_position None init_state [line_0_1, line_10_1])
     = []"
proof -
  let ?t0 = "3602879701896397 / 36028797018963968 :: float64"
  let ?t1 = "5685794529555251 / 562949953421312 :: float64"
  let ?s1 = "process_line decimal_float64 pms_position None init_state line_0_1"
  let ?s = "register_message ?s1 (Some ''40621D'') 17 ?t1 msg_odd"
  let ?b = "before_dispatch pms_position ?s (Some ''40621D'') 17 ?t1 msg_odd 11"
  have tc: "adsb_typecode pms_position msg_odd = Returned (Some 11)"
    and oe: "adsb_oe_flag pms_position msg_odd = Returned 1"
    by (simp_all add: pms_position_def pms_raising_def)
  have frame: "store_frame (cpr_slots ?b (Some ''40621D'')) 1 (msg_odd, ?t1)
      = (Some (msg_even, ?t0), Some (msg_odd, ?t1))"
    unfolding cpr_slots_before_dispatch
    by (simp add: cpr_slots_def register_message_fields rounded_run_first store_frame_def)
  have far: "10 \<le> \<bar>fsub ?t0 ?t1\<bar>"
    unfolding rounded_gap by simp
  have near: "\<bar>?t0 - ?t1\<bar> < 10"
    by simp
  have dec: "decode_fields pms_position ?s (Some ''40621D'') 17 ?t1 msg_odd
        = cpr_block pms_position ?b (Some ''40621D'') ?t1 msg_odd"
    by (rule decode_fields_position [OF _ tc]) simp_all
  have run: "ingest decimal_float64 pms_position None init_state [line_0_1, line_10_1]
        = cpr_block pms_position ?b (Some ''40621D'') ?t1 msg_odd"
    unfolding ingest_Cons ingest_Nil
    unfolding process_line_identify [of _ _ _ ?s1] identify_lines_rounded
    by (simp add: dec)
  have blk: "cpr_block pms_position ?b (Some ''40621D'') ?t1 msg_odd
        = ?b\<lparr>cpr_messages := (cpr_messages ?b)(Some ''40621D'' \<mapsto>
              (Some (msg_even, ?t0), Some (msg_odd, ?t1)))\<rparr>"
    by (rule cpr_block_stale [OF oe _ _ frame far]) simp_all
  have slots: "cpr_messages
        (ingest decimal_float64 pms_position None init_state [line_0_1, line_10_1])
        (Some ''40621D'') = Some (Some (msg_even, ?t0), Some (msg_odd, ?t1))"
    unfolding run blk by simp
  have calls: "position_calls
        (ingest decimal_float64 pms_position None init_state [line_0_1, line_10_1]) = []"
    unfolding run blk
    by (simp add: before_dispatch_keeps register_message_fields rounded_run_first)
  from slots near calls show ?thesis
    by (intro conjI)
qed

text \<open>
  Claim C2. When the frame has been stored, both slots are populated and the computed
  time difference is 10 seconds or more, pairwise resolution is not called, no fix is
  appended, and the buffer holds the new frame in its parity slot and the other slot as
  it was.
\<close>

theorem cpr_stale_pair_kept:
  assumes "df \<in> {17, 18}" and "adsb_typecode p m = Returned (Some tc)"
    and "9 \<le> tc" and "tc \<le> 18"
    and "adsb_oe_flag p m = Returned oe" and "oe = 0 \<or> oe = 1"
    and "store_frame (cpr_slots s aa) oe (m, ts) = (Some (m0, t0), Some (m1, t1))"
    and "10 \<le> \<bar>fsub t0 t1\<bar>"
  shows "position_calls (decode_fields p s aa df ts m) = position_calls s
       \<and> icao_positions (decode_fields p s aa df ts m) = icao_positions s
       \<and> cpr_messages (decode_fields p s aa df ts m) aa
           = Some (if oe = 0 then (Some (m, ts), snd (cpr_slots s aa))
                   else (fst (cpr_slots s aa), Some (m, ts)))"
proof -
  have range: "- 2 \<le> oe" "oe < 2"
    using assms(6) by auto
  have frame: "store_frame (cpr_slots (before_dispatch p s aa df ts m tc) aa) oe (m, ts)
               = (Some (m0, t0), Some (m1, t1))"
    using assms(7) by (simp add: cpr_slots_before_dispatch)
  have pair: "(Some (m0, t0), Some (m1, t1))
      = (if oe = 0 then (Some (m, ts), snd (cpr_slots s aa))
         else (fst (cpr_slots s aa), Some (m, ts)))"
    using assms(6,7) by (auto simp add: store_frame_def)
  show ?thesis
    unfolding decode_fields_position [OF assms(1-4)]
      cpr_block_stale [OF assms(5) range frame assms(8)]
    using pair by (simp add: before_dispatch_keeps)
qed

theorem cpr_stale_pair_kept_witness:
  "position_calls (decode_fields pms_position (even_frame_at 90) (Some ''40621D'') 17 104 msg_odd) = []
   \<and> icao_positions (decode_fields pms_position (even_frame_at 90) (Some ''40621D'') 17 104 msg_odd)
       = Map.empty
   \<and> cpr_messages (decode_fields pms_position (even_frame_at 90) (Some ''40621D'') 17 104 msg_odd)
       (Some ''40621D'') = Some (Some (msg_even, 90), Some (msg_odd, 104))"
  using cpr_stale_pair_kept [where df = 17 and p = pms_position and m = msg_odd and tc = 11
      and oe = 1 and s = "even_frame_at 90" and aa = "Some ''40621D''" and ts = 104
      and ?m0.0 = msg_even and ?t0.0 = 90 and ?m1.0 = msg_odd and ?t1.0 = 104]
  by (simp add: pms_position_def pms_raising_def even_frame_at_def init_state_def cpr_slots_def
      store_frame_def fsub_small)

section \<open>Altitude fusion\<close>







section \<open>Interval histogram\<close>

lemma float64_1_6: "round53 (16 / 10) = 3602879701896397 / 2251799813685248"
  by (simp add: float_eval)

lemma diff_1_6: "fsub (3602879701896397 / 2251799813685248) 1 = 1351079888211149 / 2251799813685248"
  by (simp add: fsub_def float_eval)

lemma ms_1_6: "fmul (1351079888211149 / 2251799813685248) 1000 = 600 + 1 / 2 ^ 43"
  by (simp add: fmul_def float_eval)

lemma ms_half: "fsub (1 / 2) 0 = 1 / 2" "fsub 1 (1 / 2) = 1 / 2" "fmul (1 / 2) 1000 = 500"
  by (simp_all add: fsub_def fmul_def float_eval)

lemma histogram_example:
  "plot_histogram ''reg05_msg_intervals'' (airborne_times [0, 1 / 2, 1, round53 (16 / 10)])
     (Some ''40621D'')
   = Bands [500, 500, 600 + 1 / 2 ^ 43] [500, 500] [] [600 + 1 / 2 ^ 43]"
  unfolding float64_1_6
  by (simp add: plot_histogram_def histogram_source_def histogram_target_def airborne_times_def
      init_state_def np_diff_def diff_1_6 ms_1_6 ms_half)

text \<open>
  Claim C8, as the code has it. On the timestamps 0.0, 0.5, 1.0, 1.6 of the
  airborne-position category (target 500 ms, half-width 100 ms) the intervals are
  500 ms, 500 ms and \<open>600 + 2^-43\<close> ms: the binary64 number 1.6 lies above 1.6, the
  subtraction \<open>1.6 - 1.0\<close> is exact and the product with 1000 rounds to the binary64
  number next above 600. Two intervals fall in the band from 400 to 600 ms, the third
  above it, none below.
\<close>

theorem histogram_bands_example:
  "plot_histogram ''reg05_msg_intervals'' (airborne_times [0, 1 / 2, 1, round53 (16 / 10)])
     (Some ''40621D'')
   = Bands [500, 500, 600 + 1 / 2 ^ 43] [500, 500] [] [600 + 1 / 2 ^ 43]
   \<and> histogram_target ''reg05_msg_intervals'' = (500, 100)"
  unfolding histogram_example by (simp add: histogram_target_def)

text \<open>
  The third interval is not 600 ms; an interval of exactly 600 ms would lie in the band.
\<close>

theorem histogram_bands_counterexample:
  "intervals (plot_histogram ''reg05_msg_intervals''
       (airborne_times [0, 1 / 2, 1, round53 (16 / 10)]) (Some ''40621D''))
     \<noteq> [500, 500, 600]"
  unfolding histogram_example by simp

section \<open>First and last time seen\<close>

lemma process_line_times:
  "icao_times (process_line np p target s line) aa
     = (case seen_at np p target aa line of
          None \<Rightarrow> icao_times s aa
        | Some ts \<Rightarrow> Some (case icao_times s aa of
            None \<Rightarrow> \<lparr>t_first = ts, t_last = ts\<rparr> | Some t \<Rightarrow> t\<lparr>t_last := ts\<rparr>))"
  by (simp add: process_line_identify seen_at_def decode_fields_static register_message_fields
      split: option.splits)

lemma seen_timestamps_Cons:
  "seen_timestamps np p target aa (line # lines)
     = (case seen_at np p target aa line of
          None \<Rightarrow> seen_timestamps np p target aa lines
        | Some ts \<Rightarrow> ts # seen_timestamps np p target aa lines)"
  by (simp add: seen_timestamps_def List.map_filter_simps split: option.splits)

lemma ingest_times:
  "icao_times (ingest np p target s lines) aa
     = (case seen_timestamps np p target aa lines of
          [] \<Rightarrow> icao_times s aa
        | t # ts \<Rightarrow> Some \<lparr>t_first = (case icao_times s aa of None \<Rightarrow> t | Some x \<Rightarrow> t_first x),
                          t_last = last (t # ts)\<rparr>)"
proof (induction lines arbitrary: s)
  case Nil
  show ?case by (simp add: ingest_Nil seen_timestamps_def)
next
  case (Cons line lines)
  show ?case
    unfolding ingest_Cons Cons.IH seen_timestamps_Cons process_line_times
    by (simp split: option.splits list.splits)
qed


lemma sorted_hd_Min:
  assumes "sorted xs" and "xs \<noteq> []"
  shows "hd xs = Min (set xs)"
proof -
  from assms obtain y ys where xs: "xs = y # ys" by (cases xs) auto
  with assms(1) have "\<forall>z \<in> set xs. y \<le> z" by auto
  then show ?thesis
    using xs by (intro Min_eqI [symmetric]) auto
qed

lemma sorted_last_Max:
  assumes "sorted xs" and "xs \<noteq> []"
  shows "last xs = Max (set xs)"
proof -
  have "\<forall>z \<in> set xs. z \<le> last xs"
    using assms
  proof (induction xs)
    case Nil
    then show ?case by simp
  next
    case (Cons a xs)
    then show ?case by (cases xs) auto
  qed
  then show ?thesis
    using assms(2) by (intro Max_eqI [symmetric]) auto
qed

text \<open>
  Claim C5, as the code has it. The first-seen time of an aircraft is the timestamp of
  the first, and its last-seen time the timestamp of the last, of its identified
  messages in arrival order, whatever the later decoding of each message does; they
  are the minimum and the maximum when these timestamps arrive in non-decreasing order.
\<close>

theorem first_last_seen:
  "(seen_timestamps np p target aa lines = [] \<longrightarrow>
      icao_times (ingest np p target init_state lines) aa = None)
   \<and> (seen_timestamps np p target aa lines \<noteq> [] \<longrightarrow>
        icao_times (ingest np p target init_state lines) aa
          = Some \<lparr>t_first = hd (seen_timestamps np p target aa lines),
                  t_last = last (seen_timestamps np p target aa lines)\<rparr>
      \<and> (sorted (seen_timestamps np p target aa lines) \<longrightarrow>
            hd (seen_timestamps np p target aa lines)
              = Min (set (seen_timestamps np p target aa lines))
          \<and> last (seen_timestamps np p target aa lines)
              = Max (set (seen_timestamps np p target aa lines))))"
  using sorted_hd_Min [of "seen_timestamps np p target aa lines"]
    sorted_last_Max [of "seen_timestamps np p target aa lines"]
  by (simp add: ingest_times init_state_def split: list.splits)

lemma identify_line_5:
  "identify decimal_float64 pms_position None line_5 = Some (Some ''40621D'', 17, 5, msg_even)"
  by (simp add: identify_def line_5_def framing_eval pms_position_def pms_raising_def
      target_excludes_def msg_even_def)

lemma identify_line_3:
  "identify decimal_float64 pms_position None line_3 = Some (Some ''40621D'', 17, 3, msg_odd)"
  by (simp add: identify_def line_3_def framing_eval pms_position_def pms_raising_def
      target_excludes_def msg_odd_def)

lemma seen_5_3:
  "seen_timestamps decimal_float64 pms_position None (Some ''40621D'') [line_5, line_3] = [5, 3]"
  by (simp add: seen_timestamps_Cons seen_at_def identify_line_5 identify_line_3
      seen_timestamps_def)

text \<open>
  Two messages of one aircraft arriving with timestamps 5 and then 3: first-seen is 5
  and last-seen is 3, not the minimum and the maximum.
\<close>

theorem first_last_seen_counterexample:
  "icao_times (ingest decimal_float64 pms_position None init_state [line_5, line_3])
     (Some ''40621D'') = Some \<lparr>t_first = 5, t_last = 3\<rparr>
   \<and> seen_timestamps decimal_float64 pms_position None (Some ''40621D'') [line_5, line_3] = [5, 3]"
  by (simp add: ingest_times seen_5_3 init_state_def)

theorem first_last_seen_witness:
  "icao_times (ingest decimal_float64 pms_position None init_state [line_3, line_5])
     (Some ''40621D'') = Some \<lparr>t_first = 3, t_last = 5\<rparr>
   \<and> Min {3 :: real, 5} = 3 \<and> Max {3 :: real, 5} = 5"
proof -
  have seen: "seen_timestamps decimal_float64 pms_position None (Some ''40621D'') [line_3, line_5]
              = [3, 5]"
    by (simp add: seen_timestamps_Cons seen_at_def identify_line_5 identify_line_3
        seen_timestamps_def)
  show ?thesis
    using first_last_seen [of decimal_float64 pms_position None "Some ''40621D''" "[line_3, line_5]"]
    unfolding seen by simp
qed

section \<open>Capability filter\<close>

lemma process_line_dfs:
  "icao_dfs (process_line np p target s line)
     = (case identify np p target line of
          None \<Rightarrow> icao_dfs s
        | Some (aa, df, ts, m) \<Rightarrow>
            (icao_dfs s)(aa \<mapsto> insert (get_format_label m df) (labels_of s aa)))"
  by (simp add: process_line_identify decode_fields_static register_message_fields
      split: option.splits)

lemma process_line_icao_list:
  "adsb_icao_list (process_line np p target s line)
     = (case identify np p target line of
          None \<Rightarrow> adsb_icao_list s
        | Some (aa, df, ts, m) \<Rightarrow> insert aa (adsb_icao_list s))"
  by (simp add: process_line_identify decode_fields_static register_message_fields
      split: option.splits)

lemma process_line_labels:
  assumes df: "\<And>m d. pms_df p m = Returned d \<Longrightarrow> 0 \<le> d \<and> d \<le> 31"
    and ok: "\<And>aa. labels_of s aa \<subseteq> format_labels"
  shows "labels_of (process_line np p target s line) aa \<subseteq> format_labels"
proof (cases "identify np p target line")
  case None
  then show ?thesis
    using ok [of aa] by (simp add: labels_of_def process_line_dfs)
next
  case (Some r)
  obtain a d ts m where r: "r = (a, d, ts, m)" by (cases r) auto
  from Some r have "pms_df p m = Returned d" by (simp add: identify_df)
  then have "get_format_label m d \<in> format_labels"
    using df unfolding format_labels_def by blast
  then show ?thesis
    using ok [of aa] ok [of a] Some r
    by (auto simp add: labels_of_def process_line_dfs)
qed

lemma ingest_labels:
  assumes df: "\<And>m d. pms_df p m = Returned d \<Longrightarrow> 0 \<le> d \<and> d \<le> 31"
    and ok: "\<And>aa. labels_of s aa \<subseteq> format_labels"
  shows "labels_of (ingest np p target s lines) aa \<subseteq> format_labels"
  using ok
proof (induction lines arbitrary: s aa)
  case Nil
  then show ?case by (simp add: ingest_Nil)
next
  case (Cons line lines)
  show ?case
    unfolding ingest_Cons
    by (rule Cons.IH) (rule process_line_labels [OF df Cons.prems])
qed

lemma finite_icao_list_line:
  "finite (adsb_icao_list s) \<Longrightarrow> finite (adsb_icao_list (process_line np p target s line))"
  by (simp add: process_line_icao_list split: option.splits prod.splits)

lemma finite_icao_list:
  "finite (adsb_icao_list s) \<Longrightarrow> finite (adsb_icao_list (ingest np p target s lines))"
  by (induction lines arbitrary: s) (simp_all add: ingest_Nil ingest_Cons finite_icao_list_line)

text \<open>
  Claim C6. When every format code that \<open>pms.df\<close> returns fits the five-bit format
  field, an aircraft of the aggregated set is retained exactly when its label set
  contains the label of format 17 or of format 18; the label set
  \<open>{"DF4(S)", "DF5(S)"}\<close> fails the test of the filter and \<open>{"DF17(L)"}\<close> passes it;
  and the number of aircraft discovered is the number retained plus the number
  filtered out.
\<close>

theorem capability_filter_adsb:
  assumes "\<And>m d. pms_df p m = Returned d \<Longrightarrow> 0 \<le> d \<and> d \<le> 31"
  shows "(icao \<in> filtered_icao_list (ingest np p target init_state lines) \<longleftrightarrow>
            icao \<in> adsb_icao_list (ingest np p target init_state lines)
          \<and> (''DF17(L)'' \<in> labels_of (ingest np p target init_state lines) icao
             \<or> ''DF18(L)'' \<in> labels_of (ingest np p target init_state lines) icao))
       \<and> total_icao_count (ingest np p target init_state lines)
           = retained_count (ingest np p target init_state lines)
             + filtered_count (ingest np p target init_state lines)
       \<and> 0 \<le> filtered_count (ingest np p target init_state lines)
       \<and> \<not> has_adsb {''DF4(S)'', ''DF5(S)''} \<and> has_adsb {''DF17(L)''}"
proof -
  have base: "labels_of init_state aa \<subseteq> format_labels" for aa
    by (simp add: labels_of_def init_state_def)
  have "labels_of (ingest np p target init_state lines) icao \<subseteq> format_labels"
    by (rule ingest_labels [OF assms base])
  then have iff: "has_adsb (labels_of (ingest np p target init_state lines) icao) \<longleftrightarrow>
      ''DF17(L)'' \<in> labels_of (ingest np p target init_state lines) icao
      \<or> ''DF18(L)'' \<in> labels_of (ingest np p target init_state lines) icao"
    by (rule has_adsb_format_labels)
  have fin: "finite (adsb_icao_list (ingest np p target init_state lines))"
    by (rule finite_icao_list) (simp add: init_state_def)
  have "filtered_icao_list (ingest np p target init_state lines)
        \<subseteq> adsb_icao_list (ingest np p target init_state lines)"
    by (auto simp add: filtered_icao_list_def)
  then have le: "card (filtered_icao_list (ingest np p target init_state lines))
        \<le> card (adsb_icao_list (ingest np p target init_state lines))"
    using fin by (rule card_mono [rotated])
  show ?thesis
    using iff le
    by (simp add: filtered_icao_list_def total_icao_count_def retained_count_def
        filtered_count_def has_adsb_def)
qed


lemma identify_mixed:
  "identify decimal_float64 pms_mixed None line_df4
     = Some (Some ''ABC123'', 4, 1, ''20001838CA3804'')"
  "identify decimal_float64 pms_mixed None line_df5
     = Some (Some ''ABC123'', 5, 2, ''28001A1B2C3D4E'')"
  "identify decimal_float64 pms_mixed None line_3 = Some (Some ''40621D'', 17, 3, msg_odd)"
  by (simp_all add: identify_def line_df4_def line_df5_def line_3_def framing_eval pms_mixed_def
      pms_raising_def target_excludes_def msg_odd_def)

lemma mixed_run:
  "adsb_icao_list (ingest decimal_float64 pms_mixed None init_state [line_df4, line_df5, line_3])
     = {Some ''ABC123'', Some ''40621D''}"
  "icao_dfs (ingest decimal_float64 pms_mixed None init_state [line_df4, line_df5, line_3])
     = [Some ''ABC123'' \<mapsto> {''DF4(S)'', ''DF5(S)''}, Some ''40621D'' \<mapsto> {''DF17(L)''}]"
  by (auto simp add: ingest_Cons ingest_Nil process_line_icao_list process_line_dfs identify_mixed
      labels_of_def init_state_def get_format_label_def str_int_vals)

theorem capability_filter_adsb_witness:
  "Some ''ABC123'' \<notin> filtered_icao_list
      (ingest decimal_float64 pms_mixed None init_state [line_df4, line_df5, line_3])
   \<and> labels_of (ingest decimal_float64 pms_mixed None init_state [line_df4, line_df5, line_3])
       (Some ''ABC123'') = {''DF4(S)'', ''DF5(S)''}
   \<and> Some ''40621D'' \<in> filtered_icao_list
      (ingest decimal_float64 pms_mixed None init_state [line_df4, line_df5, line_3])
   \<and> labels_of (ingest decimal_float64 pms_mixed None init_state [line_df4, line_df5, line_3])
       (Some ''40621D'') = {''DF17(L)''}
   \<and> total_icao_count
       (ingest decimal_float64 pms_mixed None init_state [line_df4, line_df5, line_3]) = 2"
proof -
  have df: "\<And>m d. pms_df pms_mixed m = Returned d \<Longrightarrow> 0 \<le> d \<and> d \<le> 31"
    by (auto simp add: pms_mixed_def pms_raising_def)
  show ?thesis
    using capability_filter_adsb [where p = pms_mixed and icao = "Some ''ABC123''"
        and np = decimal_float64 and target = None and lines = "[line_df4, line_df5, line_3]"]
      capability_filter_adsb [where p = pms_mixed and icao = "Some ''40621D''"
        and np = decimal_float64 and target = None and lines = "[line_df4, line_df5, line_3]"]
      df
    by (simp add: labels_of_def mixed_run total_icao_count_def)
qed

section \<open>Callsign\<close>

lemma plain_key_synthetic:
  assumes "plain_key aa"
  shows "sq_key a \<noteq> aa" and "modes_key a \<noteq> aa"
  using assms by (auto simp add: plain_key_def sq_key_def modes_key_def split: option.splits)

lemma squawk_step_callsign:
  assumes "plain_key aa"
  shows "icao_callsigns (squawk_step p s a df m) aa = icao_callsigns s aa"
  using plain_key_synthetic(1) [OF assms, of a]
  by (simp add: squawk_step_def split: option.splits)

lemma target_state_block_callsign:
  assumes "plain_key aa"
  shows "icao_callsigns (target_state_block p s a ts m) aa = icao_callsigns s aa"
  using plain_key_synthetic(2) [OF assms, of a]
  by (simp add: target_state_block_def baro_correction_step_static Let_def
      split: option.splits prod.splits pyval.splits)

lemma callsign_block_callsign:
  "icao_callsigns (callsign_block p s a m) aa
     = (case get_callsign p m of
          Some cs \<Rightarrow> if cs \<noteq> [] \<and> a = aa then Some (Str cs) else icao_callsigns s aa
        | None \<Rightarrow> icao_callsigns s aa)"
  by (simp add: callsign_block_def split: option.splits)

lemma adsb_block_callsign:
  assumes "plain_key aa"
  shows "icao_callsigns (adsb_block p s a ts m) aa
     = (case adsb_typecode p m of
          Returned (Some tc) \<Rightarrow>
            if 1 \<le> tc \<and> tc \<le> 4 then
              (case get_callsign p m of
                 Some cs \<Rightarrow> if cs \<noteq> [] \<and> a = aa then Some (Str cs) else icao_callsigns s aa
               | None \<Rightarrow> icao_callsigns s aa)
            else icao_callsigns s aa
        | _ \<Rightarrow> icao_callsigns s aa)"
  by (simp add: adsb_block_def Let_def collect_timestamps_static cpr_block_static
      velocity_block_static callsign_block_callsign target_state_block_callsign [OF assms]
      split: call.splits option.splits)

lemma decode_fields_callsign:
  assumes "plain_key aa"
  shows "icao_callsigns (decode_fields p s a df ts m) aa
     = (if df \<in> {17, 18} then
          (case adsb_typecode p m of
             Returned (Some tc) \<Rightarrow>
               if 1 \<le> tc \<and> tc \<le> 4 then
                 (case get_callsign p m of
                    Some cs \<Rightarrow> if cs \<noteq> [] \<and> a = aa then Some (Str cs) else icao_callsigns s aa
                  | None \<Rightarrow> icao_callsigns s aa)
               else icao_callsigns s aa
           | _ \<Rightarrow> icao_callsigns s aa)
        else icao_callsigns s aa)"
  by (simp add: decode_fields_def Let_def adsb_block_callsign [OF assms]
      squawk_step_callsign [OF assms] altitude_step_static
      split: call.splits option.splits)

lemma process_line_callsign:
  assumes "plain_key aa"
  shows "icao_callsigns (process_line np p target s line) aa
     = (case callsign_of_line np p target aa line of
          None \<Rightarrow> icao_callsigns s aa
        | Some cs \<Rightarrow> Some (Str cs))"
  by (simp add: process_line_identify callsign_of_line_def decode_fields_callsign [OF assms]
      register_message_fields split: call.splits option.splits)

lemma callsigns_seen_Cons:
  "callsigns_seen np p target aa (line # lines)
     = (case callsign_of_line np p target aa line of
          None \<Rightarrow> callsigns_seen np p target aa lines
        | Some cs \<Rightarrow> cs # callsigns_seen np p target aa lines)"
  by (simp add: callsigns_seen_def List.map_filter_simps split: option.splits)

lemma ingest_callsign:
  assumes "plain_key aa"
  shows "icao_callsigns (ingest np p target s lines) aa
     = (if callsigns_seen np p target aa lines = [] then icao_callsigns s aa
        else Some (Str (last (callsigns_seen np p target aa lines))))"
proof (induction lines arbitrary: s)
  case Nil
  show ?case by (simp add: ingest_Nil callsigns_seen_def)
next
  case (Cons line lines)
  show ?case
    unfolding ingest_Cons Cons.IH callsigns_seen_Cons process_line_callsign [OF assms]
    by (simp split: option.splits)
qed

text \<open>
  Claim C4, as the code has it. For an aircraft whose address has no underscore (every
  address pyModeS returns is made of hexadecimal digits), the recorded callsign after a
  run is the sanitized callsign of the latest identification message that produced a
  non-empty one: each such message overwrites the entry.
\<close>

theorem latest_callsign_recorded:
  assumes "plain_key aa"
  shows "icao_callsigns (ingest np p target init_state lines) aa
     = (if callsigns_seen np p target aa lines = [] then None
        else Some (Str (last (callsigns_seen np p target aa lines))))"
proof -
  have "icao_callsigns init_state aa = None"
    by (simp add: init_state_def)
  with ingest_callsign [OF assms, of np p target init_state lines] show ?thesis
    by simp
qed

lemma identify_ident:
  "identify decimal_float64 pms_ident None line_5 = Some (Some ''40621D'', 17, 5, msg_even)"
  "identify decimal_float64 pms_ident None line_3 = Some (Some ''40621D'', 17, 3, msg_odd)"
  by (simp_all add: identify_def line_5_def line_3_def framing_eval pms_ident_def
      pms_raising_def target_excludes_def msg_even_def msg_odd_def)

lemma callsign_lines:
  "callsign_of_line decimal_float64 pms_ident None (Some ''40621D'') line_3 = Some ''AFR99''"
  "callsign_of_line decimal_float64 pms_ident None (Some ''40621D'') line_5 = Some ''KLM1023''"
  unfolding callsign_of_line_def identify_ident
  by (simp_all add: get_callsign_def pms_ident_def pms_raising_def isalnum_def msg_neq)

lemma callsigns_ident:
  "callsigns_seen decimal_float64 pms_ident None (Some ''40621D'') [line_3, line_5]
     = [''AFR99'', ''KLM1023'']"
  by (simp add: callsigns_seen_Cons callsign_lines callsigns_seen_def)

theorem latest_callsign_recorded_witness:
  "icao_callsigns (ingest decimal_float64 pms_ident None init_state [line_3, line_5])
     (Some ''40621D'') = Some (Str ''KLM1023'')"
  using latest_callsign_recorded [where aa = "Some ''40621D''" and np = decimal_float64
      and p = pms_ident and target = None and lines = "[line_3, line_5]"]
  by (simp add: callsigns_ident plain_key_def)

text \<open>
  Two identification messages of one aircraft, first with callsign AFR99, then with
  KLM1023: the recorded callsign is KLM1023, not the earliest one.
\<close>

theorem first_callsign_counterexample:
  "icao_callsigns (ingest decimal_float64 pms_ident None init_state [line_3, line_5])
     (Some ''40621D'') = Some (Str ''KLM1023'')
   \<and> callsign_of_line decimal_float64 pms_ident None (Some ''40621D'') line_3 = Some ''AFR99''"
proof -
  have "plain_key (Some ''40621D'')"
    by (simp add: plain_key_def)
  then show ?thesis
    by (simp add: ingest_callsign callsigns_ident init_state_def callsign_lines)
qed

section \<open>Plausibility ranges\<close>

lemma all_in_append:
  assumes "all_in d lo hi" and "lo \<le> v" and "v \<le> hi"
  shows "all_in (append_to d k (t, v)) lo hi"
  using assms
  by (auto simp add: all_in_def series_def append_to_def split: option.splits if_splits)

lemma get_selected_altitude_range:
  assumes "get_selected_altitude p m = Some (v, modes)"
  shows "- 2000 \<le> v \<and> v \<le> 50000"
  using assms
  by (simp add: get_selected_altitude_def
      split: call.splits option.splits prod.splits if_splits)

lemma get_altitude_difference_range:
  assumes "get_altitude_difference p m = Some d"
  shows "- 2500 \<le> d \<and> d \<le> 2500"
  using assms
  by (simp add: get_altitude_difference_def split: call.splits option.splits if_splits)

lemma get_baro_correction_range:
  assumes "get_baro_correction p m = Some b"
  shows "800 \<le> b \<and> b \<le> 1100"
  using assms
  by (simp add: get_baro_correction_def split: call.splits option.splits if_splits)

lemma altitude_step_plausible:
  assumes "plausible s"
  shows "plausible (altitude_step p s aa df ts m)"
  using assms
  by (simp add: plausible_def altitude_step_def all_in_append split: option.splits)

lemma squawk_step_plausible:
  assumes "plausible s"
  shows "plausible (squawk_step p s aa df m)"
  using assms by (simp add: plausible_def squawk_step_static)

lemma collect_timestamps_plausible:
  assumes "plausible s"
  shows "plausible (collect_timestamps s aa ts tc)"
  using assms by (simp add: plausible_def collect_timestamps_static)

lemma cpr_block_plausible:
  assumes "plausible s"
  shows "plausible (cpr_block p s aa ts m)"
  using assms by (simp add: plausible_def cpr_block_static)

lemma callsign_block_plausible:
  assumes "plausible s"
  shows "plausible (callsign_block p s aa m)"
  using assms by (simp add: plausible_def callsign_block_static)

lemma velocity_block_difference:
  assumes "all_in (icao_altitude_difference s) (- 2500) 2500"
  shows "all_in (icao_altitude_difference (velocity_block p s aa ts m)) (- 2500) 2500"
proof (cases "get_altitude_difference p m")
  case None
  with assms show ?thesis
    by (simp add: velocity_block_def Let_def split: option.splits)
next
  case (Some d)
  with assms get_altitude_difference_range [OF Some] show ?thesis
    by (simp add: velocity_block_def Let_def all_in_append split: option.splits prod.splits)
qed

lemma velocity_block_plausible:
  assumes "plausible s"
  shows "plausible (velocity_block p s aa ts m)"
  using assms velocity_block_difference [of s p aa ts m]
  by (simp add: plausible_def velocity_block_static)

lemma baro_correction_step_baro:
  assumes "all_in (icao_baro_correction s) 800 1100"
  shows "all_in (icao_baro_correction (baro_correction_step p s aa ts m)) 800 1100"
proof (cases "get_baro_correction p m")
  case None
  with assms show ?thesis by (simp add: baro_correction_step_def)
next
  case (Some b)
  with assms get_baro_correction_range [OF Some] show ?thesis
    by (simp add: baro_correction_step_def all_in_append)
qed

lemma baro_correction_step_plausible:
  assumes "plausible s"
  shows "plausible (baro_correction_step p s aa ts m)"
  using assms baro_correction_step_baro [of s p aa ts m]
  by (simp add: plausible_def baro_correction_step_static)

lemma plausible_callsigns_update:
  "plausible (s\<lparr>icao_callsigns := c\<rparr>) = plausible s"
  by (simp add: plausible_def)

lemma target_state_block_plausible:
  assumes "plausible s"
  shows "plausible (target_state_block p s aa ts m)"
proof (cases "get_selected_altitude p m")
  case None
  with assms show ?thesis
    by (simp add: target_state_block_def baro_correction_step_plausible)
next
  case (Some r)
  obtain v modes where r: "r = (v, modes)" by (cases r) auto
  have "plausible (s\<lparr>icao_selected_altitude := append_to (icao_selected_altitude s) aa (ts, v),
                      icao_has_selected_alt := (icao_has_selected_alt s)(aa \<mapsto> True)\<rparr>)"
    using assms get_selected_altitude_range [of p m v modes] Some r
    by (simp add: plausible_def all_in_append)
  then show ?thesis
    using Some r
    by (simp add: target_state_block_def Let_def baro_correction_step_plausible
        plausible_callsigns_update split: option.splits pyval.splits)
qed

lemma adsb_block_plausible:
  assumes "plausible s"
  shows "plausible (adsb_block p s aa ts m)"
  using assms
  by (simp add: adsb_block_def Let_def collect_timestamps_plausible cpr_block_plausible
      velocity_block_plausible callsign_block_plausible target_state_block_plausible
      split: call.splits option.splits)

lemma decode_fields_plausible:
  assumes "plausible s"
  shows "plausible (decode_fields p s aa df ts m)"
  using assms
  by (simp add: decode_fields_def Let_def adsb_block_plausible squawk_step_plausible
      altitude_step_plausible)

lemma register_message_plausible:
  assumes "plausible s"
  shows "plausible (register_message s aa df ts m)"
  using assms by (simp add: plausible_def register_message_fields)

lemma process_line_plausible:
  assumes "plausible s"
  shows "plausible (process_line np p target s line)"
  using assms
  by (simp add: process_line_identify decode_fields_plausible register_message_plausible
      split: option.splits)

lemma ingest_plausible:
  assumes "plausible s"
  shows "plausible (ingest np p target s lines)"
  using assms
  by (induction lines arbitrary: s) (simp_all add: ingest_Nil ingest_Cons process_line_plausible)

lemma init_state_plausible: "plausible init_state"
  by (simp add: plausible_def all_in_def series_def init_state_def)


lemma out_of_range_discarded:
  "get_altitude_any_df p m df = Some alt \<Longrightarrow> \<not> (- 2000 \<le> alt \<and> alt \<le> 60000) \<Longrightarrow>
     altitude_step p s aa df ts m = s"
  "adsb_selected_altitude p m = Returned (Some (Some v, raw)) \<Longrightarrow>
     \<not> (- 2000 \<le> v \<and> v \<le> 50000) \<Longrightarrow> get_selected_altitude p m = None"
  "adsb_altitude_diff p m = Returned (Some d) \<Longrightarrow> \<not> (- 2500 \<le> d \<and> d \<le> 2500) \<Longrightarrow>
     get_altitude_difference p m = None"
  "adsb_baro_pressure_setting p m = Returned (Some b) \<Longrightarrow> \<not> (800 \<le> b \<and> b \<le> 1100) \<Longrightarrow>
     get_baro_correction p m = None"
  by (auto simp add: altitude_step_def get_selected_altitude_def get_altitude_difference_def
      get_baro_correction_def split: call.splits option.splits)

lemma squawk_stored:
  "df \<in> {5, 21} \<Longrightarrow> common_idcode p m = Returned sq \<Longrightarrow> sq \<noteq> [] \<Longrightarrow>
     icao_callsigns (squawk_step p s aa df m) (sq_key aa) = Some (Str sq)"
  by (simp add: squawk_step_def get_squawk_def)

text \<open>
  Claim C7, as the code has it. After any run, every stored barometric altitude lies in
  -2000..60000, every stored selected altitude in -2000..50000, every stored altitude
  difference in -2500..2500 and every stored baro setting in 800..1100; a decoded value
  outside its range is dropped (the extractor returns \<open>None\<close>, the altitude step leaves
  the state as it is), and no step raises: the loop body is a total function of the
  state. The squawk has no range check: whatever non-empty code \<open>pms.common.idcode\<close>
  returns for a format 5 or 21 message is stored.
\<close>

theorem stored_values_plausible:
  "((t, v) \<in> set (series (icao_altitude (ingest np p target init_state lines)) aa) \<longrightarrow>
      - 2000 \<le> v \<and> v \<le> 60000)
   \<and> ((t, v) \<in> set (series (icao_selected_altitude (ingest np p target init_state lines)) aa) \<longrightarrow>
      - 2000 \<le> v \<and> v \<le> 50000)
   \<and> ((t, v) \<in> set (series (icao_altitude_difference (ingest np p target init_state lines)) aa) \<longrightarrow>
      - 2500 \<le> v \<and> v \<le> 2500)
   \<and> ((t, w) \<in> set (series (icao_baro_correction (ingest np p target init_state lines)) aa) \<longrightarrow>
      800 \<le> w \<and> w \<le> 1100)
   \<and> (get_altitude_any_df p m df = Some alt \<and> \<not> (- 2000 \<le> alt \<and> alt \<le> 60000) \<longrightarrow>
        altitude_step p s aa df ts m = s)
   \<and> (adsb_selected_altitude p m = Returned (Some (Some v, raw))
        \<and> \<not> (- 2000 \<le> v \<and> v \<le> 50000) \<longrightarrow> get_selected_altitude p m = None)
   \<and> (adsb_altitude_diff p m = Returned (Some v) \<and> \<not> (- 2500 \<le> v \<and> v \<le> 2500) \<longrightarrow>
        get_altitude_difference p m = None)
   \<and> (adsb_baro_pressure_setting p m = Returned (Some w) \<and> \<not> (800 \<le> w \<and> w \<le> 1100) \<longrightarrow>
        get_baro_correction p m = None)
   \<and> (df \<in> {5, 21} \<and> common_idcode p m = Returned sq \<and> sq \<noteq> [] \<longrightarrow>
        icao_callsigns (squawk_step p s aa df m) (sq_key aa) = Some (Str sq))"
proof -
  have "plausible (ingest np p target init_state lines)"
    by (rule ingest_plausible [OF init_state_plausible])
  then have stored:
    "((t, v) \<in> set (series (icao_altitude (ingest np p target init_state lines)) aa) \<longrightarrow>
        - 2000 \<le> v \<and> v \<le> 60000)
     \<and> ((t, v) \<in> set (series (icao_selected_altitude (ingest np p target init_state lines)) aa) \<longrightarrow>
        - 2000 \<le> v \<and> v \<le> 50000)
     \<and> ((t, v) \<in> set (series (icao_altitude_difference (ingest np p target init_state lines)) aa) \<longrightarrow>
        - 2500 \<le> v \<and> v \<le> 2500)
     \<and> ((t, w) \<in> set (series (icao_baro_correction (ingest np p target init_state lines)) aa) \<longrightarrow>
        800 \<le> w \<and> w \<le> 1100)"
    unfolding plausible_def all_in_def by blast
  show ?thesis
    using stored out_of_range_discarded [of p m] squawk_stored [of df p m sq s aa]
    by (intro conjI impI; (elim conjE)?) simp_all
qed

lemma identify_squawk:
  "identify decimal_float64 pms_squawk None line_df5
     = Some (Some ''ABC123'', 5, 2, ''28001A1B2C3D4E'')"
  by (simp add: identify_def line_df5_def framing_eval pms_squawk_def pms_raising_def
      target_excludes_def)

text \<open>
  The identity code 9999, which no transponder can send (the digits of a squawk are
  octal), is stored as it comes.
\<close>

theorem squawk_range_counterexample:
  "icao_callsigns (ingest decimal_float64 pms_squawk None init_state [line_df5])
     (Some ''ABC123_sq'') = Some (Str ''9999'')"
  unfolding ingest_Cons ingest_Nil process_line_identify identify_squawk
  by (simp add: decode_fields_def squawk_step_def get_squawk_def altitude_step_def
      get_altitude_any_df_def register_message_fields pms_squawk_def pms_raising_def
      sq_key_def py_str_def)

lemma altitude_run:
  "icao_altitude (ingest decimal_float64 pms_position None init_state [line_3])
     = [Some ''40621D'' \<mapsto> [(3, 38000)]]"
proof -
  have tc: "adsb_typecode pms_position msg_odd = Returned (Some 11)"
    by (simp add: pms_position_def pms_raising_def)
  have "decode_fields pms_position s (Some ''40621D'') 17 3 msg_odd
        = cpr_block pms_position (before_dispatch pms_position s (Some ''40621D'') 17 3 msg_odd 11)
            (Some ''40621D'') 3 msg_odd" for s
    by (rule decode_fields_position [OF _ tc]) simp_all
  then show ?thesis
    unfolding ingest_Cons ingest_Nil process_line_identify identify_line_3
    by (simp add: cpr_block_static before_dispatch_def
        collect_timestamps_static squawk_step_static altitude_step_def get_altitude_any_df_def
        register_message_fields pms_position_def pms_raising_def append_to_def init_state_def)
qed

theorem stored_values_plausible_witness:
  "icao_altitude (ingest decimal_float64 pms_position None init_state [line_3])
     = [Some ''40621D'' \<mapsto> [(3, 38000)]]
   \<and> - 2000 \<le> (38000 :: int) \<and> (38000 :: int) \<le> 60000
   \<and> icao_callsigns (squawk_step pms_squawk init_state (Some ''ABC123'') 5 ''28001A1B2C3D4E'')
       (sq_key (Some ''ABC123'')) = Some (Str ''9999'')"
  using stored_values_plausible [where np = decimal_float64 and p = pms_position and target = None
      and lines = "[line_3]" and aa = "Some ''40621D''" and t = 3 and v = 38000]
    stored_values_plausible [where p = pms_squawk and df = 5 and m = "''28001A1B2C3D4E''"
      and sq = "''9999''" and s = init_state and aa = "Some ''ABC123''"]
  by (simp add: altitude_run series_def pms_squawk_def pms_raising_def)

section \<open>The two versions of the program\<close>

lemma prog1_MAX_MESSAGE_LENGTH_eq: "prog1_MAX_MESSAGE_LENGTH = MAX_MESSAGE_LENGTH"
  by (simp only: prog1_MAX_MESSAGE_LENGTH_def MAX_MESSAGE_LENGTH_def)

lemma prog1_hex_parts_eq: "prog1_hex_parts = hex_parts"
  by (intro ext) (simp only: prog1_hex_parts_def hex_parts_def prog1_MAX_MESSAGE_LENGTH_eq)

lemma prog1_fill_bytes_eq: "prog1_fill_bytes = fill_bytes"
  by (intro ext) (simp only: prog1_fill_bytes_def fill_bytes_def prog1_MAX_MESSAGE_LENGTH_eq prog1_hex_parts_eq)

lemma prog1_parse_ads_b_line_eq: "prog1_parse_ads_b_line = parse_ads_b_line"
  by (intro ext) (simp only: prog1_parse_ads_b_line_def parse_ads_b_line_def prog1_MAX_MESSAGE_LENGTH_eq prog1_hex_parts_eq prog1_fill_bytes_eq)

lemma prog1_get_altitude_any_df_eq: "prog1_get_altitude_any_df = get_altitude_any_df"
  by (intro ext) (simp only: prog1_get_altitude_any_df_def get_altitude_any_df_def prog1_MAX_MESSAGE_LENGTH_eq prog1_hex_parts_eq prog1_fill_bytes_eq prog1_parse_ads_b_line_eq)

lemma prog1_get_squawk_eq: "prog1_get_squawk = get_squawk"
  by (intro ext) (simp only: prog1_get_squawk_def get_squawk_def prog1_MAX_MESSAGE_LENGTH_eq prog1_hex_parts_eq prog1_fill_bytes_eq prog1_parse_ads_b_line_eq prog1_get_altitude_any_df_eq)

lemma prog1_get_velocity_eq: "prog1_get_velocity = get_velocity"
  by (intro ext) (simp only: prog1_get_velocity_def get_velocity_def prog1_MAX_MESSAGE_LENGTH_eq prog1_hex_parts_eq prog1_fill_bytes_eq prog1_parse_ads_b_line_eq prog1_get_altitude_any_df_eq prog1_get_squawk_eq)

lemma prog1_get_course_eq: "prog1_get_course = get_course"
  by (intro ext) (simp only: prog1_get_course_def get_course_def prog1_MAX_MESSAGE_LENGTH_eq prog1_hex_parts_eq prog1_fill_bytes_eq prog1_parse_ads_b_line_eq prog1_get_altitude_any_df_eq prog1_get_squawk_eq prog1_get_velocity_eq)

lemma prog1_MODE_MAP_eq: "prog1_MODE_MAP = MODE_MAP"
  by (intro ext) (simp only: prog1_MODE_MAP_def MODE_MAP_def prog1_MAX_MESSAGE_LENGTH_eq prog1_hex_parts_eq prog1_fill_bytes_eq prog1_parse_ads_b_line_eq prog1_get_altitude_any_df_eq prog1_get_squawk_eq prog1_get_velocity_eq prog1_get_course_eq)

lemma prog1_mode_label_eq: "prog1_mode_label = mode_label"
  by (intro ext) (simp only: prog1_mode_label_def mode_label_def prog1_MAX_MESSAGE_LENGTH_eq prog1_hex_parts_eq prog1_fill_bytes_eq prog1_parse_ads_b_line_eq prog1_get_altitude_any_df_eq prog1_get_squawk_eq prog1_get_velocity_eq prog1_get_course_eq prog1_MODE_MAP_eq)

lemma prog1_get_selected_altitude_eq: "prog1_get_selected_altitude = get_selected_altitude"
  by (intro ext) (simp only: prog1_get_selected_altitude_def get_selected_altitude_def prog1_MAX_MESSAGE_LENGTH_eq prog1_hex_parts_eq prog1_fill_bytes_eq prog1_parse_ads_b_line_eq prog1_get_altitude_any_df_eq prog1_get_squawk_eq prog1_get_velocity_eq prog1_get_course_eq prog1_MODE_MAP_eq prog1_mode_label_eq)

lemma prog1_get_altitude_difference_eq: "prog1_get_altitude_difference = get_altitude_difference"
  by (intro ext) (simp only: prog1_get_altitude_difference_def get_altitude_difference_def prog1_MAX_MESSAGE_LENGTH_eq prog1_hex_parts_eq prog1_fill_bytes_eq prog1_parse_ads_b_line_eq prog1_get_altitude_any_df_eq prog1_get_squawk_eq prog1_get_velocity_eq prog1_get_course_eq prog1_MODE_MAP_eq prog1_mode_label_eq prog1_get_selected_altitude_eq)

lemma prog1_get_baro_correction_eq: "prog1_get_baro_correction = get_baro_correction"
  by (intro ext) (simp only: prog1_get_baro_correction_def get_baro_correction_def prog1_MAX_MESSAGE_LENGTH_eq prog1_hex_parts_eq prog1_fill_bytes_eq prog1_parse_ads_b_line_eq prog1_get_altitude_any_df_eq prog1_get_squawk_eq prog1_get_velocity_eq prog1_get_course_eq prog1_MODE_MAP_eq prog1_mode_label_eq prog1_get_selected_altitude_eq prog1_get_altitude_difference_eq)

lemma prog1_get_callsign_eq: "prog1_get_callsign = get_callsign"
  by (intro ext) (simp only: prog1_get_callsign_def get_callsign_def prog1_MAX_MESSAGE_LENGTH_eq prog1_hex_parts_eq prog1_fill_bytes_eq prog1_parse_ads_b_line_eq prog1_get_altitude_any_df_eq prog1_get_squawk_eq prog1_get_velocity_eq prog1_get_course_eq prog1_MODE_MAP_eq prog1_mode_label_eq prog1_get_selected_altitude_eq prog1_get_altitude_difference_eq prog1_get_baro_correction_eq)

lemma prog1_get_format_label_eq: "prog1_get_format_label = get_format_label"
  by (intro ext) (simp only: prog1_get_format_label_def get_format_label_def prog1_MAX_MESSAGE_LENGTH_eq prog1_hex_parts_eq prog1_fill_bytes_eq prog1_parse_ads_b_line_eq prog1_get_altitude_any_df_eq prog1_get_squawk_eq prog1_get_velocity_eq prog1_get_course_eq prog1_MODE_MAP_eq prog1_mode_label_eq prog1_get_selected_altitude_eq prog1_get_altitude_difference_eq prog1_get_baro_correction_eq prog1_get_callsign_eq)

lemma prog1_collect_timestamps_eq: "prog1_collect_timestamps = collect_timestamps"
  by (intro ext) (simp only: prog1_collect_timestamps_def collect_timestamps_def prog1_MAX_MESSAGE_LENGTH_eq prog1_hex_parts_eq prog1_fill_bytes_eq prog1_parse_ads_b_line_eq prog1_get_altitude_any_df_eq prog1_get_squawk_eq prog1_get_velocity_eq prog1_get_course_eq prog1_MODE_MAP_eq prog1_mode_label_eq prog1_get_selected_altitude_eq prog1_get_altitude_difference_eq prog1_get_baro_correction_eq prog1_get_callsign_eq prog1_get_format_label_eq)

lemma prog1_cpr_slots_eq: "prog1_cpr_slots = cpr_slots"
  by (intro ext) (simp only: prog1_cpr_slots_def cpr_slots_def prog1_MAX_MESSAGE_LENGTH_eq prog1_hex_parts_eq prog1_fill_bytes_eq prog1_parse_ads_b_line_eq prog1_get_altitude_any_df_eq prog1_get_squawk_eq prog1_get_velocity_eq prog1_get_course_eq prog1_MODE_MAP_eq prog1_mode_label_eq prog1_get_selected_altitude_eq prog1_get_altitude_difference_eq prog1_get_baro_correction_eq prog1_get_callsign_eq prog1_get_format_label_eq prog1_collect_timestamps_eq)

lemma prog1_store_frame_eq: "prog1_store_frame = store_frame"
  by (intro ext) (simp only: prog1_store_frame_def store_frame_def prog1_MAX_MESSAGE_LENGTH_eq prog1_hex_parts_eq prog1_fill_bytes_eq prog1_parse_ads_b_line_eq prog1_get_altitude_any_df_eq prog1_get_squawk_eq prog1_get_velocity_eq prog1_get_course_eq prog1_MODE_MAP_eq prog1_mode_label_eq prog1_get_selected_altitude_eq prog1_get_altitude_difference_eq prog1_get_baro_correction_eq prog1_get_callsign_eq prog1_get_format_label_eq prog1_collect_timestamps_eq prog1_cpr_slots_eq)

lemma prog1_cpr_block_eq: "prog1_cpr_block = cpr_block"
  by (intro ext) (simp only: prog1_cpr_block_def cpr_block_def prog1_MAX_MESSAGE_LENGTH_eq prog1_hex_parts_eq prog1_fill_bytes_eq prog1_parse_ads_b_line_eq prog1_get_altitude_any_df_eq prog1_get_squawk_eq prog1_get_velocity_eq prog1_get_course_eq prog1_MODE_MAP_eq prog1_mode_label_eq prog1_get_selected_altitude_eq prog1_get_altitude_difference_eq prog1_get_baro_correction_eq prog1_get_callsign_eq prog1_get_format_label_eq prog1_collect_timestamps_eq prog1_cpr_slots_eq prog1_store_frame_eq)

lemma prog1_velocity_block_eq: "prog1_velocity_block = velocity_block"
  by (intro ext) (simp only: prog1_velocity_block_def velocity_block_def prog1_MAX_MESSAGE_LENGTH_eq prog1_hex_parts_eq prog1_fill_bytes_eq prog1_parse_ads_b_line_eq prog1_get_altitude_any_df_eq prog1_get_squawk_eq prog1_get_velocity_eq prog1_get_course_eq prog1_MODE_MAP_eq prog1_mode_label_eq prog1_get_selected_altitude_eq prog1_get_altitude_difference_eq prog1_get_baro_correction_eq prog1_get_callsign_eq prog1_get_format_label_eq prog1_collect_timestamps_eq prog1_cpr_slots_eq prog1_store_frame_eq prog1_cpr_block_eq)

lemma prog1_callsign_block_eq: "prog1_callsign_block = callsign_block"
  by (intro ext) (simp only: prog1_callsign_block_def callsign_block_def prog1_MAX_MESSAGE_LENGTH_eq prog1_hex_parts_eq prog1_fill_bytes_eq prog1_parse_ads_b_line_eq prog1_get_altitude_any_df_eq prog1_get_squawk_eq prog1_get_velocity_eq prog1_get_course_eq prog1_MODE_MAP_eq prog1_mode_label_eq prog1_get_selected_altitude_eq prog1_get_altitude_difference_eq prog1_get_baro_correction_eq prog1_get_callsign_eq prog1_get_format_label_eq prog1_collect_timestamps_eq prog1_cpr_slots_eq prog1_store_frame_eq prog1_cpr_block_eq prog1_velocity_block_eq)

lemma prog1_baro_correction_step_eq: "prog1_baro_correction_step = baro_correction_step"
  by (intro ext) (simp only: prog1_baro_correction_step_def baro_correction_step_def prog1_MAX_MESSAGE_LENGTH_eq prog1_hex_parts_eq prog1_fill_bytes_eq prog1_parse_ads_b_line_eq prog1_get_altitude_any_df_eq prog1_get_squawk_eq prog1_get_velocity_eq prog1_get_course_eq prog1_MODE_MAP_eq prog1_mode_label_eq prog1_get_selected_altitude_eq prog1_get_altitude_difference_eq prog1_get_baro_correction_eq prog1_get_callsign_eq prog1_get_format_label_eq prog1_collect_timestamps_eq prog1_cpr_slots_eq prog1_store_frame_eq prog1_cpr_block_eq prog1_velocity_block_eq prog1_callsign_block_eq)

lemma prog1_target_state_block_eq: "prog1_target_state_block = target_state_block"
  by (intro ext) (simp only: prog1_target_state_block_def target_state_block_def prog1_MAX_MESSAGE_LENGTH_eq prog1_hex_parts_eq prog1_fill_bytes_eq prog1_parse_ads_b_line_eq prog1_get_altitude_any_df_eq prog1_get_squawk_eq prog1_get_velocity_eq prog1_get_course_eq prog1_MODE_MAP_eq prog1_mode_label_eq prog1_get_selected_altitude_eq prog1_get_altitude_difference_eq prog1_get_baro_correction_eq prog1_get_callsign_eq prog1_get_format_label_eq prog1_collect_timestamps_eq prog1_cpr_slots_eq prog1_store_frame_eq prog1_cpr_block_eq prog1_velocity_block_eq prog1_callsign_block_eq prog1_baro_correction_step_eq)

lemma prog1_adsb_block_eq: "prog1_adsb_block = adsb_block"
  by (intro ext) (simp only: prog1_adsb_block_def adsb_block_def prog1_MAX_MESSAGE_LENGTH_eq prog1_hex_parts_eq prog1_fill_bytes_eq prog1_parse_ads_b_line_eq prog1_get_altitude_any_df_eq prog1_get_squawk_eq prog1_get_velocity_eq prog1_get_course_eq prog1_MODE_MAP_eq prog1_mode_label_eq prog1_get_selected_altitude_eq prog1_get_altitude_difference_eq prog1_get_baro_correction_eq prog1_get_callsign_eq prog1_get_format_label_eq prog1_collect_timestamps_eq prog1_cpr_slots_eq prog1_store_frame_eq prog1_cpr_block_eq prog1_velocity_block_eq prog1_callsign_block_eq prog1_baro_correction_step_eq prog1_target_state_block_eq)

lemma prog1_altitude_step_eq: "prog1_altitude_step = altitude_step"
  by (intro ext) (simp only: prog1_altitude_step_def altitude_step_def prog1_MAX_MESSAGE_LENGTH_eq prog1_hex_parts_eq prog1_fill_bytes_eq prog1_parse_ads_b_line_eq prog1_get_altitude_any_df_eq prog1_get_squawk_eq prog1_get_velocity_eq prog1_get_course_eq prog1_MODE_MAP_eq prog1_mode_label_eq prog1_get_selected_altitude_eq prog1_get_altitude_difference_eq prog1_get_baro_correction_eq prog1_get_callsign_eq prog1_get_format_label_eq prog1_collect_timestamps_eq prog1_cpr_slots_eq prog1_store_frame_eq prog1_cpr_block_eq prog1_velocity_block_eq prog1_callsign_block_eq prog1_baro_correction_step_eq prog1_target_state_block_eq prog1_adsb_block_eq)

lemma prog1_squawk_step_eq: "prog1_squawk_step = squawk_step"
  by (intro ext) (simp only: prog1_squawk_step_def squawk_step_def prog1_MAX_MESSAGE_LENGTH_eq prog1_hex_parts_eq prog1_fill_bytes_eq prog1_parse_ads_b_line_eq prog1_get_altitude_any_df_eq prog1_get_squawk_eq prog1_get_velocity_eq prog1_get_course_eq prog1_MODE_MAP_eq prog1_mode_label_eq prog1_get_selected_altitude_eq prog1_get_altitude_difference_eq prog1_get_baro_correction_eq prog1_get_callsign_eq prog1_get_format_label_eq prog1_collect_timestamps_eq prog1_cpr_slots_eq prog1_store_frame_eq prog1_cpr_block_eq prog1_velocity_block_eq prog1_callsign_block_eq prog1_baro_correction_step_eq prog1_target_state_block_eq prog1_adsb_block_eq prog1_altitude_step_eq)

lemma prog1_decode_fields_eq: "prog1_decode_fields = decode_fields"
  by (intro ext) (simp only: prog1_decode_fields_def decode_fields_def prog1_MAX_MESSAGE_LENGTH_eq prog1_hex_parts_eq prog1_fill_bytes_eq prog1_parse_ads_b_line_eq prog1_get_altitude_any_df_eq prog1_get_squawk_eq prog1_get_velocity_eq prog1_get_course_eq prog1_MODE_MAP_eq prog1_mode_label_eq prog1_get_selected_altitude_eq prog1_get_altitude_difference_eq prog1_get_baro_correction_eq prog1_get_callsign_eq prog1_get_format_label_eq prog1_collect_timestamps_eq prog1_cpr_slots_eq prog1_store_frame_eq prog1_cpr_block_eq prog1_velocity_block_eq prog1_callsign_block_eq prog1_baro_correction_step_eq prog1_target_state_block_eq prog1_adsb_block_eq prog1_altitude_step_eq prog1_squawk_step_eq)

lemma prog1_register_message_eq: "prog1_register_message = register_message"
  by (intro ext) (simp only: prog1_register_message_def register_message_def prog1_MAX_MESSAGE_LENGTH_eq prog1_hex_parts_eq prog1_fill_bytes_eq prog1_parse_ads_b_line_eq prog1_get_altitude_any_df_eq prog1_get_squawk_eq prog1_get_velocity_eq prog1_get_course_eq prog1_MODE_MAP_eq prog1_mode_label_eq prog1_get_selected_altitude_eq prog1_get_altitude_difference_eq prog1_get_baro_correction_eq prog1_get_callsign_eq prog1_get_format_label_eq prog1_collect_timestamps_eq prog1_cpr_slots_eq prog1_store_frame_eq prog1_cpr_block_eq prog1_velocity_block_eq prog1_callsign_block_eq prog1_baro_correction_step_eq prog1_target_state_block_eq prog1_adsb_block_eq prog1_altitude_step_eq prog1_squawk_step_eq prog1_decode_fields_eq)

lemma prog1_target_excludes_eq: "prog1_target_excludes = target_excludes"
  by (intro ext) (simp only: prog1_target_excludes_def target_excludes_def prog1_MAX_MESSAGE_LENGTH_eq prog1_hex_parts_eq prog1_fill_bytes_eq prog1_parse_ads_b_line_eq prog1_get_altitude_any_df_eq prog1_get_squawk_eq prog1_get_velocity_eq prog1_get_course_eq prog1_MODE_MAP_eq prog1_mode_label_eq prog1_get_selected_altitude_eq prog1_get_altitude_difference_eq prog1_get_baro_correction_eq prog1_get_callsign_eq prog1_get_format_label_eq prog1_collect_timestamps_eq prog1_cpr_slots_eq prog1_store_frame_eq prog1_cpr_block_eq prog1_velocity_block_eq prog1_callsign_block_eq prog1_baro_correction_step_eq prog1_target_state_block_eq prog1_adsb_block_eq prog1_altitude_step_eq prog1_squawk_step_eq prog1_decode_fields_eq prog1_register_message_eq)

lemma prog1_process_line_eq: "prog1_process_line = process_line"
  by (intro ext) (simp only: prog1_process_line_def process_line_def prog1_MAX_MESSAGE_LENGTH_eq prog1_hex_parts_eq prog1_fill_bytes_eq prog1_parse_ads_b_line_eq prog1_get_altitude_any_df_eq prog1_get_squawk_eq prog1_get_velocity_eq prog1_get_course_eq prog1_MODE_MAP_eq prog1_mode_label_eq prog1_get_selected_altitude_eq prog1_get_altitude_difference_eq prog1_get_baro_correction_eq prog1_get_callsign_eq prog1_get_format_label_eq prog1_collect_timestamps_eq prog1_cpr_slots_eq prog1_store_frame_eq prog1_cpr_block_eq prog1_velocity_block_eq prog1_callsign_block_eq prog1_baro_correction_step_eq prog1_target_state_block_eq prog1_adsb_block_eq prog1_altitude_step_eq prog1_squawk_step_eq prog1_decode_fields_eq prog1_register_message_eq prog1_target_excludes_eq)

lemma prog1_ingest_eq: "prog1_ingest = ingest"
  by (intro ext) (simp only: prog1_ingest_def ingest_def prog1_MAX_MESSAGE_LENGTH_eq prog1_hex_parts_eq prog1_fill_bytes_eq prog1_parse_ads_b_line_eq prog1_get_altitude_any_df_eq prog1_get_squawk_eq prog1_get_velocity_eq prog1_get_course_eq prog1_MODE_MAP_eq prog1_mode_label_eq prog1_get_selected_altitude_eq prog1_get_altitude_difference_eq prog1_get_baro_correction_eq prog1_get_callsign_eq prog1_get_format_label_eq prog1_collect_timestamps_eq prog1_cpr_slots_eq prog1_store_frame_eq prog1_cpr_block_eq prog1_velocity_block_eq prog1_callsign_block_eq prog1_baro_correction_step_eq prog1_target_state_block_eq prog1_adsb_block_eq prog1_altitude_step_eq prog1_squawk_step_eq prog1_decode_fields_eq prog1_register_message_eq prog1_target_excludes_eq prog1_process_line_eq)

text \<open>
  Claim C9. On every sequence of input lines, from every state, the ingestion loop of
  \<open>prog1.py\<close> and the ingestion loop of \<open>main.py\<close> with \<open>decoder.py\<close> produce the same
  state: every time series, the callsign, squawk and mode entries, the label sets, the
  first and last times, the CPR and baro buffers and the timestamp lists coincide.
\<close>

theorem versions_agree:
  "prog1_ingest np_float64 p target_icao s lines = ingest np_float64 p target_icao s lines
   \<and> prog1_parse_ads_b_line np_float64 line = parse_ads_b_line np_float64 line"
proof
  show "prog1_ingest np_float64 p target_icao s lines = ingest np_float64 p target_icao s lines"
    by (simp only: prog1_ingest_eq)
  show "prog1_parse_ads_b_line np_float64 line = parse_ads_b_line np_float64 line"
    by (simp only: prog1_parse_ads_b_line_eq)
qed

end
